theory Spec2Isabelle
  imports Complex_Main "HOL-Library.Multiset"
begin

section \<open>Numeric values of a pandas column\<close>

text \<open>
  The screening pipeline of \<^verbatim>\<open>phase_01_stock_screening.py\<close> works on pandas columns of
  floating-point numbers in which \<^verbatim>\<open>NaN\<close> marks a missing value. A cell is modelled as an
  optional rational: \<open>None\<close> is \<^verbatim>\<open>NaN\<close>, \<open>Some q\<close> is the number \<open>q\<close>. Arithmetic is
  exact (no rounding error, no infinities) and a \<^verbatim>\<open>NaN\<close> operand gives \<^verbatim>\<open>NaN\<close>;
  every comparison with \<^verbatim>\<open>NaN\<close> is false, as in Python.
\<close>

type_synonym fl = "rat option"

type_synonym series = "fl list"

definition fadd :: "fl \<Rightarrow> fl \<Rightarrow> fl" where
  "fadd a b = (case a of None \<Rightarrow> None | Some x \<Rightarrow> (case b of None \<Rightarrow> None | Some y \<Rightarrow> Some (x + y)))"

definition fsub :: "fl \<Rightarrow> fl \<Rightarrow> fl" where
  "fsub a b = (case a of None \<Rightarrow> None | Some x \<Rightarrow> (case b of None \<Rightarrow> None | Some y \<Rightarrow> Some (x - y)))"

definition fmul :: "fl \<Rightarrow> fl \<Rightarrow> fl" where
  "fmul a b = (case a of None \<Rightarrow> None | Some x \<Rightarrow> (case b of None \<Rightarrow> None | Some y \<Rightarrow> Some (x * y)))"

text \<open>Every division of the source is guarded so that its divisor is positive; a zero
  divisor is given the value \<^verbatim>\<open>NaN\<close> here and is never reached.\<close>

definition fdiv :: "fl \<Rightarrow> fl \<Rightarrow> fl" where
  "fdiv a b = (case a of None \<Rightarrow> None | Some x \<Rightarrow>
     (case b of None \<Rightarrow> None | Some y \<Rightarrow> if y = 0 then None else Some (x / y)))"

definition fgt :: "fl \<Rightarrow> fl \<Rightarrow> bool" where
  "fgt a b = (case a of None \<Rightarrow> False | Some x \<Rightarrow> (case b of None \<Rightarrow> False | Some y \<Rightarrow> y < x))"

definition fle :: "fl \<Rightarrow> fl \<Rightarrow> bool" where
  "fle a b = (case a of None \<Rightarrow> False | Some x \<Rightarrow> (case b of None \<Rightarrow> False | Some y \<Rightarrow> x \<le> y))"

text \<open>\<^verbatim>\<open>Series.fillna(d)\<close>, and the element-wise operations on columns of one index.\<close>

definition fillna :: "rat \<Rightarrow> series \<Rightarrow> series" where
  "fillna d s = map (\<lambda>v. case v of None \<Rightarrow> Some d | Some x \<Rightarrow> Some x) s"

definition s_scale :: "series \<Rightarrow> rat \<Rightarrow> series" where
  "s_scale s k = map (\<lambda>v. fmul v (Some k)) s"

definition s_add :: "series \<Rightarrow> series \<Rightarrow> series" where
  "s_add a b = map (\<lambda>(x, y). fadd x y) (zip a b)"

definition s_sub_scalar :: "series \<Rightarrow> fl \<Rightarrow> series" where
  "s_sub_scalar s k = map (\<lambda>v. fsub v k) s"

text \<open>\<^verbatim>\<open>round(x, nd)\<close>: to \<open>nd\<close> decimals, a half going to the even neighbour.\<close>

definition round_half_even :: "rat \<Rightarrow> int" where
  "round_half_even q =
     (let f = \<lfloor>q\<rfloor>; d = q - of_int f
      in if d < 1 / 2 then f else if 1 / 2 < d then f + 1 else if even f then f else f + 1)"

definition py_round :: "nat \<Rightarrow> rat \<Rightarrow> rat" where
  "py_round nd q = of_int (round_half_even (q * 10 ^ nd)) / 10 ^ nd"

definition fround :: "nat \<Rightarrow> fl \<Rightarrow> fl" where
  "fround nd v = map_option (py_round nd) v"

section \<open>Percentile normalisation\<close>

text \<open>
  \<^verbatim>\<open>Series.rank\<close> with its default method \<^verbatim>\<open>'average'\<close> sorts the values that are present,
  numbers the sorted positions from 1, and gives every value the mean of the positions its
  tie group occupies; a \<^verbatim>\<open>NaN\<close> keeps the rank \<^verbatim>\<open>NaN\<close>. With \<^verbatim>\<open>pct=True\<close> the rank is
  divided by the number of values present.
\<close>

definition present :: "series \<Rightarrow> rat list" where
  "present s = concat (map (\<lambda>v. case v of None \<Rightarrow> [] | Some x \<Rightarrow> [x]) s)"

fun tie_positions :: "rat \<Rightarrow> rat list \<Rightarrow> nat \<Rightarrow> nat list" where
  "tie_positions x [] k = []"
| "tie_positions x (y # ys) k = (if y = x then [k] else []) @ tie_positions x ys (Suc k)"

definition average_rank :: "rat list \<Rightarrow> rat \<Rightarrow> rat" where
  "average_rank sorted_vals x =
     (let ps = tie_positions x sorted_vals 1
      in of_nat (sum_list ps) / of_nat (length ps))"

definition rank_pct :: "series \<Rightarrow> series" where
  "rank_pct s =
     (let ys = sort (present s); n = length ys
      in map (map_option (\<lambda>x. average_rank ys x / of_nat n)) s)"

text \<open>\<^verbatim>\<open>normalize_score(values)\<close> is \<^verbatim>\<open>values.rank(pct=True) * 100\<close>.\<close>

definition normalize_score :: "series \<Rightarrow> series" where
  "normalize_score vals = s_scale (rank_pct vals) 100"

text \<open>\<^verbatim>\<open>Series.rank(ascending=False)\<close>: the same ranking over the values sorted downwards,
  without the division.\<close>

definition rank_descending :: "series \<Rightarrow> series" where
  "rank_descending s =
     (let ys = rev (sort (present s))
      in map (map_option (\<lambda>x. average_rank ys x)) s)"


text \<open>The score \<^verbatim>\<open>normalize_score\<close> gives to a value \<open>x\<close> that occurs in the column \<open>s\<close>.\<close>

definition percentile_of :: "series \<Rightarrow> rat \<Rightarrow> rat" where
  "percentile_of s x = average_rank (sort (present s)) x / of_nat (length (present s)) * 100"

section \<open>The Composite Scorer\<close>

text \<open>A row of \<^verbatim>\<open>data/03_va_sp500_raw_screening_data.csv\<close>: the ticker and the ten metric
  columns written by \<^verbatim>\<open>add_all_screening_metrics\<close>; an empty cell is read back as \<^verbatim>\<open>NaN\<close>.\<close>

record metric_row =
  Ticker :: string
  Historical_Vol_Past_1_Year :: fl
  Volume_Ratio :: fl
  Avg_Volume_20d :: fl
  Price_Change_1d :: fl
  Price_Change_5d :: fl
  Price_Change_20d :: fl
  Options_Proxy :: fl
  Put_Call_Proxy :: fl
  Short_Ratio :: fl
  Short_Percent :: fl

text \<open>A row of \<^verbatim>\<open>data/04_va_sp500_screening_results.csv\<close>: the metric row with the six
  sub-scores, the composite score and the rank.\<close>

record scored_row =
  metrics :: metric_row
  Volume_Score :: fl
  Price_Change_Score :: fl
  Relative_Strength_Score :: fl
  Historical_Vol_Score :: fl
  Options_Score :: fl
  Short_Squeeze_Score :: fl
  Composite_Score :: fl
  Rank :: fl

record weights =
  volume_score :: rat
  price_change_score :: rat
  relative_strength_score :: rat
  historical_vol_score :: rat
  options_score :: rat
  short_squeeze_score :: rat

definition SCREENING_WEIGHTS :: weights where
  "SCREENING_WEIGHTS =
     \<lparr>volume_score = 20 / 100, price_change_score = 25 / 100, relative_strength_score = 20 / 100,
      historical_vol_score = 15 / 100, options_score = 10 / 100, short_squeeze_score = 10 / 100\<rparr>"

definition weight_sum :: "weights \<Rightarrow> rat" where
  "weight_sum w =
     volume_score w + price_change_score w + relative_strength_score w +
     historical_vol_score w + options_score w + short_squeeze_score w"

text \<open>
  The scoring part of \<^verbatim>\<open>calculate_screening_scores\<close>, from the first
  \<^verbatim>\<open>normalize_score\<close> call to the \<^verbatim>\<open>Rank\<close> column, one definition for each column
  the source computes. The weight table (the module constant \<^verbatim>\<open>SCREENING_WEIGHTS\<close>) and the
  value that the benchmark block leaves in \<^verbatim>\<open>spy_return_20d\<close> (the return computed from the
  SPY history, or the default 2.0) are parameters. Columns are lists in row order.
\<close>

definition Volume_Score_col :: "metric_row list \<Rightarrow> series" where
  "Volume_Score_col df = normalize_score (fillna 0 (map Volume_Ratio df))"

definition price_composite :: "metric_row list \<Rightarrow> series" where
  "price_composite df =
     s_add (s_add (s_scale (fillna 0 (map Price_Change_1d df)) (5 / 10))
                  (s_scale (fillna 0 (map Price_Change_5d df)) (3 / 10)))
           (s_scale (fillna 0 (map Price_Change_20d df)) (2 / 10))"

definition Price_Change_Score_col :: "metric_row list \<Rightarrow> series" where
  "Price_Change_Score_col df = normalize_score (price_composite df)"

definition relative_strength :: "fl \<Rightarrow> metric_row list \<Rightarrow> series" where
  "relative_strength spy_return_20d df =
     s_sub_scalar (fillna 0 (map Price_Change_20d df)) spy_return_20d"

definition Relative_Strength_Score_col :: "fl \<Rightarrow> metric_row list \<Rightarrow> series" where
  "Relative_Strength_Score_col spy_return_20d df =
     normalize_score (relative_strength spy_return_20d df)"

definition Historical_Vol_Score_col :: "metric_row list \<Rightarrow> series" where
  "Historical_Vol_Score_col df = normalize_score (fillna 0 (map Historical_Vol_Past_1_Year df))"

definition options_composite :: "metric_row list \<Rightarrow> series" where
  "options_composite df =
     s_add (s_scale (normalize_score (fillna 0 (map Options_Proxy df))) (7 / 10))
           (s_scale (normalize_score (fillna 1 (map Put_Call_Proxy df))) (3 / 10))"

definition squeeze_composite :: "metric_row list \<Rightarrow> series" where
  "squeeze_composite df =
     s_add (s_add (s_scale (normalize_score (fillna 0 (map Short_Percent df))) (5 / 10))
                  (s_scale (normalize_score (fillna 0 (map Short_Ratio df))) (3 / 10)))
           (s_scale (normalize_score (fillna 0 (map Price_Change_5d df))) (2 / 10))"

definition Composite_Score_col :: "weights \<Rightarrow> fl \<Rightarrow> metric_row list \<Rightarrow> series" where
  "Composite_Score_col w spy_return_20d df =
     s_add (s_add (s_add (s_add (s_add
       (s_scale (Volume_Score_col df) (volume_score w))
       (s_scale (Price_Change_Score_col df) (price_change_score w)))
       (s_scale (Relative_Strength_Score_col spy_return_20d df) (relative_strength_score w)))
       (s_scale (Historical_Vol_Score_col df) (historical_vol_score w)))
       (s_scale (options_composite df) (options_score w)))
       (s_scale (squeeze_composite df) (short_squeeze_score w))"

definition Rank_col :: "weights \<Rightarrow> fl \<Rightarrow> metric_row list \<Rightarrow> series" where
  "Rank_col w spy_return_20d df = rank_descending (Composite_Score_col w spy_return_20d df)"

definition screening_scores :: "weights \<Rightarrow> fl \<Rightarrow> metric_row list \<Rightarrow> scored_row list" where
  "screening_scores w spy_return_20d df =
     map (\<lambda>i.
       \<lparr>metrics = df ! i,
        Volume_Score = Volume_Score_col df ! i,
        Price_Change_Score = Price_Change_Score_col df ! i,
        Relative_Strength_Score = Relative_Strength_Score_col spy_return_20d df ! i,
        Historical_Vol_Score = Historical_Vol_Score_col df ! i,
        Options_Score = options_composite df ! i,
        Short_Squeeze_Score = squeeze_composite df ! i,
        Composite_Score = Composite_Score_col w spy_return_20d df ! i,
        Rank = Rank_col w spy_return_20d df ! i\<rparr>) [0..<length df]"

text \<open>\<^verbatim>\<open>df.sort_values('Composite_Score', ascending=False)\<close>: rows by falling composite
  score, rows whose score is \<^verbatim>\<open>NaN\<close> last. pandas leaves the order of rows with equal
  scores to its sorting routine; the model keeps them in input order.\<close>

definition sort_values_descending :: "scored_row list \<Rightarrow> scored_row list" where
  "sort_values_descending rows =
     sort_key (\<lambda>r. case Composite_Score r of None \<Rightarrow> 0 | Some x \<Rightarrow> - x)
       (filter (\<lambda>r. Composite_Score r \<noteq> None) rows)
     @ filter (\<lambda>r. Composite_Score r = None) rows"

definition scored_table :: "weights \<Rightarrow> fl \<Rightarrow> metric_row list \<Rightarrow> scored_row list" where
  "scored_table w spy_return_20d df = sort_values_descending (screening_scores w spy_return_20d df)"


text \<open>A column computed from a table is \<^emph>\<open>row-wise\<close> when each cell is a function of its
  own row and of the rows of the table as a multiset.\<close>

definition rowwise :: "('a list \<Rightarrow> series) \<Rightarrow> bool" where
  "rowwise C \<longleftrightarrow>
     (\<exists>g. (\<forall>df. C df = map (g df) df) \<and> (\<forall>df df'. mset df = mset df' \<longrightarrow> g df = g df'))"

section \<open>Rows with and without data\<close>

text \<open>The rows whose ten metrics are all missing; the row of that kind for a ticker; and a
  row that carries one number in every metric column.\<close>

definition all_missing :: "metric_row \<Rightarrow> bool" where
  "all_missing r \<longleftrightarrow>
     Historical_Vol_Past_1_Year r = None \<and> Volume_Ratio r = None \<and> Avg_Volume_20d r = None \<and>
     Price_Change_1d r = None \<and> Price_Change_5d r = None \<and> Price_Change_20d r = None \<and>
     Options_Proxy r = None \<and> Put_Call_Proxy r = None \<and> Short_Ratio r = None \<and>
     Short_Percent r = None"

definition missing_row :: "string \<Rightarrow> metric_row" where
  "missing_row t =
     \<lparr>Ticker = t, Historical_Vol_Past_1_Year = None, Volume_Ratio = None, Avg_Volume_20d = None,
      Price_Change_1d = None, Price_Change_5d = None, Price_Change_20d = None,
      Options_Proxy = None, Put_Call_Proxy = None, Short_Ratio = None, Short_Percent = None\<rparr>"

definition flat_row :: "string \<Rightarrow> rat \<Rightarrow> metric_row" where
  "flat_row t q =
     \<lparr>Ticker = t, Historical_Vol_Past_1_Year = Some q, Volume_Ratio = Some q, Avg_Volume_20d = Some q,
      Price_Change_1d = Some q, Price_Change_5d = Some q, Price_Change_20d = Some q,
      Options_Proxy = Some q, Put_Call_Proxy = Some q, Short_Ratio = Some q, Short_Percent = Some q\<rparr>"

text \<open>A score that is a number in the half-open interval from 0 to 100.\<close>

definition in_0_100 :: "fl \<Rightarrow> bool" where
  "in_0_100 v = (case v of None \<Rightarrow> False | Some x \<Rightarrow> 0 < x \<and> x \<le> 100)"


section \<open>Exceptions and the stage files\<close>

text \<open>
  An exception raised inside a \<^verbatim>\<open>try\<close> block, or escaping a function, is a value of
  \<open>exn\<close>; a computation that may raise returns \<open>exn + 'a\<close>. \<open>ProviderError\<close> stands for
  whatever a call to an external provider (Wikipedia, yfinance) raises.
\<close>

datatype exn = OSError | ValueError | IndexError | KeyError | TypeError | ProviderError

definition bind_exn :: "exn + 'a \<Rightarrow> ('a \<Rightarrow> exn + 'b) \<Rightarrow> exn + 'b" where
  "bind_exn m f = (case m of Inl e \<Rightarrow> Inl e | Inr x \<Rightarrow> f x)"

text \<open>
  The part of the file system the pipeline touches: whether the directory \<^verbatim>\<open>data\<close> exists
  and the contents of the four stage files (\<open>None\<close>: the file does not exist). A CSV file is
  modelled by the table read back from it.
\<close>

record files =
  data_dir :: bool
  f01_tickers :: "string list option"
  f02_filtered :: "string list option"
  f03_raw :: "metric_row list option"
  f04_results :: "scored_row list option"

text \<open>\<^verbatim>\<open>DataFrame.to_csv\<close> into \<^verbatim>\<open>data/\<close>: pandas raises \<^verbatim>\<open>OSError\<close> when the directory
  does not exist.\<close>

definition to_csv :: "(files \<Rightarrow> files) \<Rightarrow> files \<Rightarrow> exn + files" where
  "to_csv write fs = (if data_dir fs then Inr (write fs) else Inl OSError)"

section \<open>The Universe Builder\<close>

text \<open>What \<^verbatim>\<open>pd.read_html(url)\<close> does: it raises, or it returns a list of tables; a table
  is its columns, each a name with its cells.\<close>

type_synonym html_table = "(string \<times> string list) list"

datatype listing = Read_Html_Raises | Tables "html_table list"

text \<open>The body of the \<^verbatim>\<open>try\<close> block of \<^verbatim>\<open>get_sp500_tickers\<close>.\<close>

definition get_sp500_tickers_try :: "listing \<Rightarrow> exn + string list" where
  "get_sp500_tickers_try l =
     (case l of
        Read_Html_Raises \<Rightarrow> Inl ProviderError
      | Tables tables \<Rightarrow>
          (case tables of
             [] \<Rightarrow> Inl IndexError
           | df # _ \<Rightarrow>
               (if ''Symbol'' \<in> set (map fst df) then
                  (case map_of df ''Symbol'' of None \<Rightarrow> Inl KeyError | Some cells \<Rightarrow> Inr cells)
                else if ''Ticker symbol'' \<in> set (map fst df) then
                  (case map_of df ''Ticker symbol'' of None \<Rightarrow> Inl KeyError | Some cells \<Rightarrow> Inr cells)
                else Inl ValueError)))"

text \<open>\<^verbatim>\<open>except Exception\<close>: any exception of the body gives the empty list.\<close>

definition get_sp500_tickers :: "listing \<Rightarrow> string list" where
  "get_sp500_tickers l = (case get_sp500_tickers_try l of Inl e \<Rightarrow> [] | Inr tickers \<Rightarrow> tickers)"

text \<open>The slice \<^verbatim>\<open>xs[:n]\<close> for a Python integer \<open>n\<close>.\<close>

definition py_prefix :: "int \<Rightarrow> 'a list \<Rightarrow> 'a list" where
  "py_prefix n xs = (if 0 \<le> n then take (nat n) xs else take (length xs - nat (- n)) xs)"

definition create_dataframe_with_tickers :: "bool \<Rightarrow> int \<Rightarrow> listing \<Rightarrow> files \<Rightarrow> exn + files" where
  "create_dataframe_with_tickers test_mode test_count l fs =
     (let tickers = get_sp500_tickers l in
      if tickers = [] then Inr fs
      else
        let fs1 = (if \<not> data_dir fs then fs\<lparr>data_dir := True\<rparr> else fs);
            tickers1 = (if test_mode then py_prefix test_count tickers else tickers)
        in to_csv (\<lambda>fs. fs\<lparr>f01_tickers := Some tickers1\<rparr>) fs1)"

section \<open>The Fundamental Filter\<close>

text \<open>
  \<^verbatim>\<open>stock.financials\<close> is a table whose rows are line items (the index) and whose columns
  are fiscal periods, the most recent first (the order the source relies on). A column maps a
  line item to its value.
\<close>

record dataframe =
  index :: "string list"
  columns :: "(string \<Rightarrow> fl) list"

text \<open>The body of the loop of \<^verbatim>\<open>filter_by_net_income\<close> once the financials are fetched:
  whether the ticker is appended to \<^verbatim>\<open>tickers_to_keep\<close>.\<close>

definition net_income_check :: "dataframe \<Rightarrow> bool" where
  "net_income_check financials_df =
     (if ''Net Income'' \<notin> set (index financials_df) \<or> length (columns financials_df) < 3 then False
      else
        let net_income_series = map (\<lambda>c. c ''Net Income'') (take 3 (columns financials_df));
            is_positive = list_all (\<lambda>v. fgt v (Some 0)) net_income_series;
            is_non_decreasing =
              (fle (net_income_series ! 2) (net_income_series ! 1) \<and>
               fle (net_income_series ! 1) (net_income_series ! 0))
        in is_positive \<and> is_non_decreasing)"

text \<open>The loop over the tickers; \<open>financials\<close> is the provider: for each ticker the table, or
  the exception that the \<^verbatim>\<open>try\<close> block catches (the ticker is then skipped).\<close>

fun tickers_to_keep :: "(string \<Rightarrow> exn + dataframe) \<Rightarrow> string list \<Rightarrow> string list" where
  "tickers_to_keep financials [] = []"
| "tickers_to_keep financials (ticker # rest) =
     (case financials ticker of
        Inl e \<Rightarrow> tickers_to_keep financials rest
      | Inr financials_df \<Rightarrow>
          (if net_income_check financials_df then ticker # tickers_to_keep financials rest
           else tickers_to_keep financials rest))"

definition filter_by_net_income :: "(string \<Rightarrow> exn + dataframe) \<Rightarrow> files \<Rightarrow> exn + files" where
  "filter_by_net_income financials fs =
     (case f01_tickers fs of
        None \<Rightarrow> to_csv (\<lambda>fs. fs\<lparr>f02_filtered := Some []\<rparr>) fs
      | Some tickers \<Rightarrow>
          to_csv (\<lambda>fs. fs\<lparr>f02_filtered := Some (tickers_to_keep financials tickers)\<rparr>) fs)"

section \<open>The Metrics Collector\<close>

text \<open>
  One row of a price history: the closing price and the volume (yfinance delivers the
  volume as an integer). What the market-data provider returns for a ticker:
  the number of rows of the one-year history together with the value of
  \<^verbatim>\<open>hist_1y['Log Returns'].std() * np.sqrt(252)\<close> (a square root and logarithms, taken as
  given), the 30-day history, the option data and the \<^verbatim>\<open>info\<close> dictionary.
\<close>

record bar =
  Close :: fl
  Volume :: int

datatype options_data =
  Options_Raise
  | No_Expirations
  | Chain (calls_volume: "fl list") (puts_volume: "fl list") (hist_5d: "exn + int list")

datatype info_value = Py_None | Py_Number fl

record market_data =
  hist_1y_rows :: nat
  hist_1y_vol :: fl
  hist_30d :: "bar list"
  options :: options_data
  info :: "string \<Rightarrow> info_value option"

text \<open>The dictionary that \<^verbatim>\<open>get_all_screening_metrics\<close> returns.\<close>

record results =
  hist_vol_1y :: fl
  volume_ratio :: fl
  avg_volume_20d :: fl
  change_1d :: fl
  change_5d :: fl
  change_20d :: fl
  options_proxy :: fl
  put_call_proxy :: fl
  short_ratio :: fl
  short_percent :: fl

text \<open>\<^verbatim>\<open>int(x)\<close> for a float: towards zero.\<close>

definition py_int :: "rat \<Rightarrow> int" where
  "py_int q = (if 0 \<le> q then \<lfloor>q\<rfloor> else \<lceil>q\<rceil>)"

text \<open>Block 1: historical volatility.\<close>

definition hist_vol_block :: "market_data \<Rightarrow> fl" where
  "hist_vol_block md =
     (if hist_1y_rows md \<noteq> 0 \<and> 50 < hist_1y_rows md then fround 2 (hist_1y_vol md) else None)"

text \<open>Block 2: volume metrics, the pair \<^verbatim>\<open>(volume_ratio, avg_volume_20d)\<close>.
  \<^verbatim>\<open>rolling(20).mean().iloc[-1]\<close> is the mean of the last 20 rows.\<close>

definition volume_block :: "bar list \<Rightarrow> fl \<times> fl" where
  "volume_block hist =
     (if hist \<noteq> [] \<and> 20 \<le> length hist then
        let current_volume = Volume (last hist);
            avg_volume_20d = of_int (sum_list (map Volume (drop (length hist - 20) hist))) / 20;
            volume_ratio = (if 0 < avg_volume_20d then of_int current_volume / avg_volume_20d else 0)
        in (Some (py_round 2 volume_ratio), Some (of_int (py_int avg_volume_20d)))
      else (None, None))"

text \<open>Block 3: price changes, the triple \<^verbatim>\<open>(change_1d, change_5d, change_20d)\<close>.
  \<^verbatim>\<open>iloc[-k]\<close> is the \<open>k\<close>-th row from the end; each use is guarded by the length.\<close>

definition pct_change :: "fl \<Rightarrow> fl \<Rightarrow> fl" where
  "pct_change current_price price =
     (if fgt price (Some 0)
      then fround 2 (fmul (fdiv (fsub current_price price) price) (Some 100))
      else Some 0)"

definition price_block :: "bar list \<Rightarrow> fl \<times> fl \<times> fl" where
  "price_block hist =
     (if hist \<noteq> [] \<and> 21 \<le> length hist then
        let current_price = Close (hist ! (length hist - 1));
            price_1d = (if 2 \<le> length hist then Close (hist ! (length hist - 2)) else current_price);
            price_5d = (if 6 \<le> length hist then Close (hist ! (length hist - 6)) else current_price);
            price_20d = (if 21 \<le> length hist then Close (hist ! (length hist - 21)) else current_price)
        in (pct_change current_price price_1d,
            pct_change current_price price_5d,
            pct_change current_price price_20d)
      else (None, None, None))"

text \<open>Block 4: option metrics, the pair \<^verbatim>\<open>(options_proxy, put_call_proxy)\<close> after rounding;
  \<open>None\<close> is Python's \<^verbatim>\<open>None\<close>, which becomes \<^verbatim>\<open>NaN\<close> in the table. Any exception is caught
  inside the block.\<close>

definition options_block :: "options_data \<Rightarrow> fl \<times> fl" where
  "options_block od =
     (case od of
        Options_Raise \<Rightarrow> (None, None)
      | No_Expirations \<Rightarrow> (None, None)
      | Chain calls puts hist \<Rightarrow>
          (case hist of
             Inl e \<Rightarrow> (None, None)
           | Inr volumes \<Rightarrow>
               let call_volume = sum_list (present (fillna 0 calls));
                   put_volume = sum_list (present (fillna 0 puts));
                   total_opt_volume = call_volume + put_volume;
                   avg_stock_volume =
                     (if volumes \<noteq> [] then of_int (sum_list volumes) / of_nat (length volumes) else 1)
               in if 0 < total_opt_volume
                  then (Some (py_round 4 (total_opt_volume / max avg_stock_volume 1)),
                        Some (py_round 4 (put_volume / max call_volume 1)))
                  else (Some (py_round 4 0), Some (py_round 4 1))))"

text \<open>Block 5: \<^verbatim>\<open>round(info.get(key, 0), 2)\<close>. The dictionary may hold \<^verbatim>\<open>None\<close> under
  a key (\<open>Py_None\<close>); rounding it raises \<^verbatim>\<open>TypeError\<close>.\<close>

definition info_rounded :: "(string \<Rightarrow> info_value option) \<Rightarrow> string \<Rightarrow> exn + fl" where
  "info_rounded d key =
     (case d key of
        None \<Rightarrow> Inr (fround 2 (Some 0))
      | Some Py_None \<Rightarrow> Inl TypeError
      | Some (Py_Number v) \<Rightarrow> Inr (fround 2 v))"

definition all_nan :: results where
  "all_nan =
     \<lparr>hist_vol_1y = None, volume_ratio = None, avg_volume_20d = None,
      change_1d = None, change_5d = None, change_20d = None,
      options_proxy = None, put_call_proxy = None, short_ratio = None, short_percent = None\<rparr>"

text \<open>The body of the outer \<^verbatim>\<open>try\<close> block, after the provider has delivered its data.\<close>

definition get_all_screening_metrics_try :: "market_data \<Rightarrow> exn + results" where
  "get_all_screening_metrics_try md =
     (let (vr, av) = volume_block (hist_30d md);
          (c1, c5, c20) = price_block (hist_30d md);
          (op, pc) = options_block (options md)
      in bind_exn (info_rounded (info md) ''shortRatio'') (\<lambda>sr.
         bind_exn (info_rounded (info md) ''shortPercentOfFloat'') (\<lambda>sp.
           Inr \<lparr>hist_vol_1y = hist_vol_block md, volume_ratio = vr, avg_volume_20d = av,
                change_1d = c1, change_5d = c5, change_20d = c20,
                options_proxy = op, put_call_proxy = pc,
                short_ratio = sr, short_percent = sp\<rparr>)))"

text \<open>\<^verbatim>\<open>get_all_screening_metrics\<close>: the provider raises or delivers; any exception gives
  the all-\<^verbatim>\<open>NaN\<close> dictionary.\<close>

definition get_all_screening_metrics :: "exn + market_data \<Rightarrow> results" where
  "get_all_screening_metrics fetched =
     (case bind_exn fetched get_all_screening_metrics_try of
        Inl e \<Rightarrow> all_nan
      | Inr r \<Rightarrow> r)"

definition metric_row_of :: "string \<Rightarrow> results \<Rightarrow> metric_row" where
  "metric_row_of ticker m =
     \<lparr>Ticker = ticker,
      Historical_Vol_Past_1_Year = hist_vol_1y m,
      Volume_Ratio = volume_ratio m,
      Avg_Volume_20d = avg_volume_20d m,
      Price_Change_1d = change_1d m,
      Price_Change_5d = change_5d m,
      Price_Change_20d = change_20d m,
      Options_Proxy = options_proxy m,
      Put_Call_Proxy = put_call_proxy m,
      Short_Ratio = short_ratio m,
      Short_Percent = short_percent m\<rparr>"

definition add_all_screening_metrics :: "(string \<Rightarrow> exn + market_data) \<Rightarrow> files \<Rightarrow> exn + files" where
  "add_all_screening_metrics market fs =
     (case f02_filtered fs of
        None \<Rightarrow> Inr fs
      | Some tickers \<Rightarrow>
          to_csv (\<lambda>fs. fs\<lparr>f03_raw :=
            Some (map (\<lambda>ticker. metric_row_of ticker (get_all_screening_metrics (market ticker))) tickers)\<rparr>) fs)"

section \<open>The scoring stage and the pipeline\<close>

definition calculate_screening_scores :: "weights \<Rightarrow> fl \<Rightarrow> files \<Rightarrow> exn + files" where
  "calculate_screening_scores w spy_return_20d fs =
     (case f03_raw fs of
        None \<Rightarrow> Inr fs
      | Some df \<Rightarrow> to_csv (\<lambda>fs. fs\<lparr>f04_results := Some (scored_table w spy_return_20d df)\<rparr>) fs)"

text \<open>The outside world of one run: what each provider answers.\<close>

record world =
  sp500_listing :: listing
  financials_of :: "string \<Rightarrow> exn + dataframe"
  market_of :: "string \<Rightarrow> exn + market_data"
  spy_return :: fl

definition main :: "bool \<Rightarrow> int \<Rightarrow> world \<Rightarrow> files \<Rightarrow> exn + files" where
  "main test_mode test_count env fs =
     bind_exn (create_dataframe_with_tickers test_mode test_count (sp500_listing env) fs) (\<lambda>fs1.
     bind_exn (filter_by_net_income (financials_of env) fs1) (\<lambda>fs2.
     bind_exn (add_all_screening_metrics (market_of env) fs2) (\<lambda>fs3.
       calculate_screening_scores SCREENING_WEIGHTS (spy_return env) fs3)))"


section \<open>Example inputs\<close>

text \<open>Financials with net income 5, 6, 7 from the oldest to the newest period (the newest
  first, as the provider delivers them), and financials with only two periods.\<close>

definition fin_rising :: dataframe where
  "fin_rising = \<lparr>index = [''Total Revenue'', ''Net Income''],
                 columns = [(\<lambda>item. Some 7), (\<lambda>item. Some 6), (\<lambda>item. Some 5)]\<rparr>"

definition fin_two_periods :: dataframe where
  "fin_two_periods = \<lparr>index = [''Net Income''], columns = [(\<lambda>item. Some 7), (\<lambda>item. Some 6)]\<rparr>"

text \<open>A listing whose first table has no symbol column.\<close>

definition listing_without_symbol :: listing where
  "listing_without_symbol = Tables [[(''Security'', [''Apple Inc.'']), (''Founded'', [''1977''])]]"

text \<open>Thirty-day histories: twenty days without any trading volume; five days; and
  twenty quiet days followed by one day with a higher close and three times the volume.\<close>

definition no_market_data :: market_data where
  "no_market_data =
     \<lparr>hist_1y_rows = 0, hist_1y_vol = None, hist_30d = [], options = No_Expirations,
      info = (\<lambda>key. None)\<rparr>"

definition md_zero_volume :: market_data where
  "md_zero_volume = no_market_data\<lparr>hist_30d := replicate 20 \<lparr>Close = Some 10, Volume = 0\<rparr>\<rparr>"

definition md_five_days :: market_data where
  "md_five_days = no_market_data\<lparr>hist_30d := replicate 5 \<lparr>Close = Some 10, Volume = 100\<rparr>\<rparr>"

definition md_active :: market_data where
  "md_active = no_market_data\<lparr>hist_30d :=
     replicate 20 \<lparr>Close = Some 10, Volume = 100\<rparr> @ [\<lparr>Close = Some 11, Volume = 300\<rparr>]\<rparr>"

text \<open>A weight table whose weights sum to 2.\<close>

definition weights_sum_2 :: weights where
  "weights_sum_2 =
     \<lparr>volume_score = 40 / 100, price_change_score = 50 / 100, relative_strength_score = 40 / 100,
      historical_vol_score = 30 / 100, options_score = 20 / 100, short_squeeze_score = 20 / 100\<rparr>"

text \<open>A run in which the listing cannot be parsed while the universe file of an earlier
  run is still in place; the market-data provider fails for every ticker.\<close>

definition env_listing_broken :: world where
  "env_listing_broken =
     \<lparr>sp500_listing = listing_without_symbol,
      financials_of = (\<lambda>ticker. Inr fin_rising),
      market_of = (\<lambda>ticker. Inl ProviderError),
      spy_return = Some 2\<rparr>"

definition fs_earlier_run :: files where
  "fs_earlier_run =
     \<lparr>data_dir = True, f01_tickers = Some [''AAA''], f02_filtered = None, f03_raw = None,
      f04_results = None\<rparr>"

definition fs_with_raw :: files where
  "fs_with_raw =
     \<lparr>data_dir = True, f01_tickers = None, f02_filtered = None,
      f03_raw = Some [missing_row ''AAA''], f04_results = None\<rparr>"

section \<open>Properties of the percentile normalisation\<close>

lemma tie_positions_absent: "x \<notin> set ys \<Longrightarrow> tie_positions x ys k = []"
  by (induction ys arbitrary: k) auto

lemma tie_positions_sorted:
  "sorted ys \<Longrightarrow>
   tie_positions x ys k =
     [k + length (filter (\<lambda>y. y < x) ys) ..<
      k + length (filter (\<lambda>y. y < x) ys) + length (filter (\<lambda>y. y = x) ys)]"
proof (induction ys arbitrary: k)
  case Nil
  then show ?case by simp
next
  case (Cons y ys)
  have srt: "sorted ys" and ge: "\<forall>z\<in>set ys. y \<le> z"
    using Cons.prems by auto
  note IH = Cons.IH [OF srt, of "Suc k"]
  consider (lt) "y < x" | (eq) "y = x" | (gt) "x < y" by linarith
  then show ?case
  proof cases
    case lt
    then show ?thesis using IH by simp
  next
    case eq
    have none_below: "filter (\<lambda>z. z < x) ys = []"
      using ge eq by (auto simp: filter_empty_conv)
    have "tie_positions x (y # ys) k = k # [Suc k ..< Suc k + length (filter (\<lambda>z. z = x) ys)]"
      using IH eq none_below by (simp del: upt_Suc)
    also have "\<dots> = [k ..< Suc k + length (filter (\<lambda>z. z = x) ys)]"
      by (rule upt_conv_Cons [symmetric]) simp
    finally show ?thesis using eq none_below by (simp del: upt_Suc)
  next
    case gt
    have "x \<notin> set (y # ys)" using ge gt by auto
    then have "tie_positions x (y # ys) k = []"
      by (rule tie_positions_absent)
    moreover have "filter (\<lambda>z. z < x) (y # ys) = []" "filter (\<lambda>z. z = x) (y # ys) = []"
      using ge gt by (auto simp: filter_empty_conv)
    ultimately show ?thesis
      by (simp only: list.size add_0_right upt_conv_Nil order_refl)
  qed
qed

lemma length_filter_sort: "length (filter P (sort xs)) = length (filter P xs)"
  by (simp add: filter_sort)

lemma average_rank_sort:
  "average_rank (sort xs) x =
     of_nat (\<Sum>k = length (filter (\<lambda>y. y < x) xs) + 1 ..
                    length (filter (\<lambda>y. y < x) xs) + length (filter (\<lambda>y. y = x) xs). k)
       / of_nat (length (filter (\<lambda>y. y = x) xs))"
proof -
  let ?L = "length (filter (\<lambda>y. y < x) xs)" and ?E = "length (filter (\<lambda>y. y = x) xs)"
  have "tie_positions x (sort xs) 1 = [1 + ?L ..< 1 + ?L + ?E]"
    by (simp add: tie_positions_sorted length_filter_sort del: upt_Suc)
  then have "sum_list (tie_positions x (sort xs) 1) = \<Sum> {1 + ?L ..< 1 + ?L + ?E}"
    and len: "length (tie_positions x (sort xs) 1) = ?E"
    by (simp_all only: sum_list_upt le_add1 length_upt diff_add_inverse)
  moreover have "{1 + ?L ..< 1 + ?L + ?E} = {?L + 1 .. ?L + ?E}"
    by auto
  ultimately have "sum_list (tie_positions x (sort xs) 1) = \<Sum> {?L + 1 .. ?L + ?E}"
    by (simp only:)
  with len show ?thesis
    by (simp only: average_rank_def Let_def)
qed

lemma nth_normalize_score:
  "i < length vs \<Longrightarrow>
   normalize_score vs ! i =
     map_option (\<lambda>x. average_rank (sort (present vs)) x / of_nat (length (present vs)) * 100) (vs ! i)"
  by (cases "vs ! i") (simp_all add: normalize_score_def rank_pct_def s_scale_def fmul_def)

lemma present_all_Some: "None \<notin> set vs \<Longrightarrow> map Some (present vs) = vs"
proof (induction vs)
  case Nil
  then show ?case by (simp add: present_def)
next
  case (Cons v vs)
  then obtain x where "v = Some x" by (cases v) auto
  with Cons show ?case by (simp add: present_def)
qed

lemma count_below_sorted_distinct:
  "sorted ys \<Longrightarrow> distinct ys \<Longrightarrow>
   map (\<lambda>x. length (filter (\<lambda>y. y < x) ys)) ys = [0..<length ys]"
proof (induction ys rule: rev_induct)
  case Nil
  then show ?case by simp
next
  case (snoc z ys)
  have srt: "sorted ys" and dst: "distinct ys" and below: "\<forall>y\<in>set ys. y < z"
    using snoc.prems by (auto simp: sorted_append less_le)
  have "filter (\<lambda>y. y < z) ys = ys"
    using below by (simp add: filter_id_conv)
  moreover have "map (\<lambda>x. length (filter (\<lambda>y. y < x) (ys @ [z]))) ys
      = map (\<lambda>x. length (filter (\<lambda>y. y < x) ys)) ys"
    using below by (intro map_cong) auto
  ultimately show ?case
    using snoc.IH [OF srt dst] by simp
qed

lemma count_tied_distinct:
  "distinct xs \<Longrightarrow> x \<in> set xs \<Longrightarrow> length (filter (\<lambda>y. y = x) xs) = 1"
  by (induction xs) (auto simp: filter_empty_conv)

lemma mset_count_below:
  assumes "distinct (xs :: rat list)"
  shows "mset (map (\<lambda>x. length (filter (\<lambda>y. y < x) xs)) xs) = mset [0..<length xs]"
proof -
  have "mset (map (\<lambda>x. length (filter (\<lambda>y. y < x) xs)) xs)
      = mset (map (\<lambda>x. length (filter (\<lambda>y. y < x) xs)) (sort xs))"
    by simp
  also have "\<dots> = mset (map (\<lambda>x. length (filter (\<lambda>y. y < x) (sort xs))) (sort xs))"
    by (simp only: length_filter_sort)
  also have "\<dots> = mset [0..<length (sort xs)]"
    using assms by (subst count_below_sorted_distinct) simp_all
  finally show ?thesis by simp
qed

section \<open>Columns as functions of rows\<close>

lemma length_fillna [simp]: "length (fillna d s) = length s"
  by (simp add: fillna_def)

lemma length_s_scale [simp]: "length (s_scale s k) = length s"
  by (simp add: s_scale_def)

lemma length_s_add [simp]: "length (s_add a b) = min (length a) (length b)"
  by (simp add: s_add_def)

lemma length_s_sub_scalar [simp]: "length (s_sub_scalar s k) = length s"
  by (simp add: s_sub_scalar_def)

lemma length_normalize_score [simp]: "length (normalize_score s) = length s"
  by (simp add: normalize_score_def rank_pct_def)

lemma length_rank_descending [simp]: "length (rank_descending s) = length s"
  by (simp add: rank_descending_def)

lemma present_filter: "present s = map the (filter (\<lambda>v. v \<noteq> None) s)"
  by (induction s) (auto simp: present_def)

lemma mset_present: "mset s = mset s' \<Longrightarrow> mset (present s) = mset (present s')"
  by (simp add: present_filter)

lemma sort_present_cong: "mset s = mset s' \<Longrightarrow> sort (present s) = sort (present s')"
proof -
  assume "mset s = mset s'"
  then have "mset (sort (present s')) = mset (present s)"
    by (simp add: mset_present [of s s'])
  then show ?thesis
    by (rule properties_for_sort) simp
qed

lemma length_present_cong: "mset s = mset s' \<Longrightarrow> length (present s) = length (present s')"
  by (metis mset_present size_mset)

lemma normalize_score_map:
  "normalize_score s = map (map_option (percentile_of s)) s"
proof -
  have "fmul (map_option (\<lambda>x. average_rank (sort (present s)) x / of_nat (length (present s))) v) (Some 100)
      = map_option (percentile_of s) v" for v
    by (cases v) (simp_all add: fmul_def percentile_of_def)
  then show ?thesis
    by (simp add: normalize_score_def rank_pct_def s_scale_def)
qed

lemma percentile_of_cong: "mset s = mset s' \<Longrightarrow> percentile_of s = percentile_of s'"
  by (rule ext) (simp add: percentile_of_def sort_present_cong [of s s'] length_present_cong [of s s'])

lemma rowwise_map: "rowwise (\<lambda>df. map f df)"
  unfolding rowwise_def by (rule exI [of _ "\<lambda>df. f"]) simp

lemma rowwise_lift1:
  assumes "rowwise C"
  shows "rowwise (\<lambda>df. map h (C df))"
proof -
  from assms obtain g where g: "\<And>df. C df = map (g df) df"
      "\<And>df df'. mset df = mset df' \<Longrightarrow> g df = g df'"
    unfolding rowwise_def by blast
  show ?thesis unfolding rowwise_def
  proof (intro exI [of _ "\<lambda>df r. h (g df r)"] conjI allI impI)
    fix df show "map h (C df) = map (\<lambda>r. h (g df r)) df"
      by (simp add: g(1))
  next
    fix df df' :: "'a list" assume "mset df = mset df'"
    then show "(\<lambda>r. h (g df r)) = (\<lambda>r. h (g df' r))"
      by (simp add: g(2) [of df df'])
  qed
qed

lemma map_zip_same: "map (\<lambda>(x, y). h x y) (zip (map a l) (map b l)) = map (\<lambda>r. h (a r) (b r)) l"
  by (induction l) simp_all

lemma rowwise_lift2:
  assumes "rowwise A" and "rowwise B"
  shows "rowwise (\<lambda>df. map (\<lambda>(x, y). h x y) (zip (A df) (B df)))"
proof -
  from assms(1) obtain a where a: "\<And>df. A df = map (a df) df"
      "\<And>df df'. mset df = mset df' \<Longrightarrow> a df = a df'"
    unfolding rowwise_def by blast
  from assms(2) obtain b where b: "\<And>df. B df = map (b df) df"
      "\<And>df df'. mset df = mset df' \<Longrightarrow> b df = b df'"
    unfolding rowwise_def by blast
  show ?thesis unfolding rowwise_def
  proof (intro exI [of _ "\<lambda>df r. h (a df r) (b df r)"] conjI allI impI)
    fix df show "map (\<lambda>(x, y). h x y) (zip (A df) (B df)) = map (\<lambda>r. h (a df r) (b df r)) df"
      by (simp only: a(1) [of df] b(1) [of df] map_zip_same)
  next
    fix df df' :: "'a list" assume "mset df = mset df'"
    then show "(\<lambda>r. h (a df r) (b df r)) = (\<lambda>r. h (a df' r) (b df' r))"
      by (simp add: a(2) [of df df'] b(2) [of df df'])
  qed
qed

lemma rowwise_ctx:
  assumes H: "\<And>s s'. mset s = mset s' \<Longrightarrow> H s = H s'" and "rowwise C"
  shows "rowwise (\<lambda>df. map (H (C df)) (C df))"
proof -
  from assms(2) obtain g where g: "\<And>df. C df = map (g df) df"
      "\<And>df df'. mset df = mset df' \<Longrightarrow> g df = g df'"
    unfolding rowwise_def by blast
  show ?thesis unfolding rowwise_def
  proof (intro exI [of _ "\<lambda>df r. H (map (g df) df) (g df r)"] conjI allI impI)
    fix df show "map (H (C df)) (C df) = map (\<lambda>r. H (map (g df) df) (g df r)) df"
      by (simp add: g(1) [symmetric]) (simp add: g(1))
  next
    fix df df' :: "'a list" assume eq: "mset df = mset df'"
    then have "g df = g df'" by (rule g(2))
    moreover have "mset (map (g df') df) = mset (map (g df') df')"
      using eq by simp
    then have "H (map (g df') df) = H (map (g df') df')" by (rule H)
    ultimately show "(\<lambda>r. H (map (g df) df) (g df r)) = (\<lambda>r. H (map (g df') df') (g df' r))"
      by simp
  qed
qed

lemma rowwise_fillna: "rowwise C \<Longrightarrow> rowwise (\<lambda>df. fillna d (C df))"
  unfolding fillna_def by (rule rowwise_lift1)

lemma rowwise_s_scale: "rowwise C \<Longrightarrow> rowwise (\<lambda>df. s_scale (C df) k)"
  unfolding s_scale_def by (rule rowwise_lift1)

lemma rowwise_s_sub_scalar: "rowwise C \<Longrightarrow> rowwise (\<lambda>df. s_sub_scalar (C df) k)"
  unfolding s_sub_scalar_def by (rule rowwise_lift1)

lemma rowwise_s_add: "rowwise A \<Longrightarrow> rowwise B \<Longrightarrow> rowwise (\<lambda>df. s_add (A df) (B df))"
  unfolding s_add_def by (rule rowwise_lift2)

lemma rowwise_normalize_score: "rowwise C \<Longrightarrow> rowwise (\<lambda>df. normalize_score (C df))"
proof -
  assume C: "rowwise C"
  have "rowwise (\<lambda>df. map ((\<lambda>s. map_option (percentile_of s)) (C df)) (C df))"
    using C by (rule rowwise_ctx [where H = "\<lambda>s. map_option (percentile_of s)", rotated])
      (drule percentile_of_cong, simp)
  then show ?thesis by (simp add: normalize_score_map)
qed

lemma rank_descending_cong:
  "mset s = mset s' \<Longrightarrow>
   map_option (average_rank (rev (sort (present s)))) = map_option (average_rank (rev (sort (present s'))))"
  by (simp add: sort_present_cong [of s s'])

lemma rowwise_rank_descending: "rowwise C \<Longrightarrow> rowwise (\<lambda>df. rank_descending (C df))"
proof -
  assume C: "rowwise C"
  have "rowwise (\<lambda>df. map ((\<lambda>s. map_option (average_rank (rev (sort (present s))))) (C df)) (C df))"
    using C by (rule rowwise_ctx [where H = "\<lambda>s. map_option (average_rank (rev (sort (present s))))", rotated])
      (rule rank_descending_cong)
  then show ?thesis by (simp add: rank_descending_def)
qed

lemmas rowwise_intros =
  rowwise_map rowwise_fillna rowwise_s_scale rowwise_s_sub_scalar rowwise_s_add
  rowwise_normalize_score rowwise_rank_descending

lemma rowwise_Volume_Score_col: "rowwise Volume_Score_col"
  unfolding Volume_Score_col_def [abs_def] by (intro rowwise_intros)

lemma rowwise_Price_Change_Score_col: "rowwise Price_Change_Score_col"
  unfolding Price_Change_Score_col_def [abs_def] price_composite_def by (intro rowwise_intros)

lemma rowwise_Relative_Strength_Score_col: "rowwise (Relative_Strength_Score_col spy)"
  unfolding Relative_Strength_Score_col_def [abs_def] relative_strength_def by (intro rowwise_intros)

lemma rowwise_Historical_Vol_Score_col: "rowwise Historical_Vol_Score_col"
  unfolding Historical_Vol_Score_col_def [abs_def] by (intro rowwise_intros)

lemma rowwise_options_composite: "rowwise options_composite"
  unfolding options_composite_def [abs_def] by (intro rowwise_intros)

lemma rowwise_squeeze_composite: "rowwise squeeze_composite"
  unfolding squeeze_composite_def [abs_def] by (intro rowwise_intros)


lemma rowwise_Composite_Score_col: "rowwise (Composite_Score_col w spy)"
proof -
  have 1: "rowwise (\<lambda>df. s_scale (Volume_Score_col df) (volume_score w))"
    by (rule rowwise_s_scale) (rule rowwise_Volume_Score_col)
  have 2: "rowwise (\<lambda>df. s_scale (Price_Change_Score_col df) (price_change_score w))"
    by (rule rowwise_s_scale) (rule rowwise_Price_Change_Score_col)
  have 3: "rowwise (\<lambda>df. s_scale (Relative_Strength_Score_col spy df) (relative_strength_score w))"
    by (rule rowwise_s_scale) (rule rowwise_Relative_Strength_Score_col)
  have 4: "rowwise (\<lambda>df. s_scale (Historical_Vol_Score_col df) (historical_vol_score w))"
    by (rule rowwise_s_scale) (rule rowwise_Historical_Vol_Score_col)
  have 5: "rowwise (\<lambda>df. s_scale (options_composite df) (options_score w))"
    by (rule rowwise_s_scale) (rule rowwise_options_composite)
  have 6: "rowwise (\<lambda>df. s_scale (squeeze_composite df) (short_squeeze_score w))"
    by (rule rowwise_s_scale) (rule rowwise_squeeze_composite)
  note 12 = rowwise_s_add [OF 1 2]
  note 123 = rowwise_s_add [OF 12 3]
  note 1234 = rowwise_s_add [OF 123 4]
  note 12345 = rowwise_s_add [OF 1234 5]
  show ?thesis
    unfolding Composite_Score_col_def [abs_def]
    by (rule rowwise_s_add [OF 12345 6])
qed

lemma rowwise_Rank_col: "rowwise (Rank_col w spy)"
  unfolding Rank_col_def [abs_def]
  by (rule rowwise_rank_descending) (rule rowwise_Composite_Score_col)



lemma map_index_rows: "map (\<lambda>i. f (xs ! i)) [0..<length xs] = map f xs"
proof -
  have "map f (map ((!) xs) [0..<length xs]) = map f xs"
    by (simp only: map_nth)
  then show ?thesis by (simp only: map_map comp_def)
qed

lemma screening_scores_rowwise:
  "\<exists>G. (\<forall>df. screening_scores w spy df = map (G df) df) \<and>
       (\<forall>df df'. mset df = mset df' \<longrightarrow> G df = G df')"
proof -
  obtain g1 where g10: "(\<forall>df. Volume_Score_col df = map (g1 df) df) \<and>
      (\<forall>df df'. mset df = mset df' \<longrightarrow> g1 df = g1 df')"
    using rowwise_Volume_Score_col unfolding rowwise_def ..
  note g1 = g10 [THEN conjunct1, rule_format] g10 [THEN conjunct2, rule_format]
  obtain g2 where g20: "(\<forall>df. Price_Change_Score_col df = map (g2 df) df) \<and>
      (\<forall>df df'. mset df = mset df' \<longrightarrow> g2 df = g2 df')"
    using rowwise_Price_Change_Score_col unfolding rowwise_def ..
  note g2 = g20 [THEN conjunct1, rule_format] g20 [THEN conjunct2, rule_format]
  obtain g3 where g30: "(\<forall>df. Relative_Strength_Score_col spy df = map (g3 df) df) \<and>
      (\<forall>df df'. mset df = mset df' \<longrightarrow> g3 df = g3 df')"
    using rowwise_Relative_Strength_Score_col unfolding rowwise_def ..
  note g3 = g30 [THEN conjunct1, rule_format] g30 [THEN conjunct2, rule_format]
  obtain g4 where g40: "(\<forall>df. Historical_Vol_Score_col df = map (g4 df) df) \<and>
      (\<forall>df df'. mset df = mset df' \<longrightarrow> g4 df = g4 df')"
    using rowwise_Historical_Vol_Score_col unfolding rowwise_def ..
  note g4 = g40 [THEN conjunct1, rule_format] g40 [THEN conjunct2, rule_format]
  obtain g5 where g50: "(\<forall>df. options_composite df = map (g5 df) df) \<and>
      (\<forall>df df'. mset df = mset df' \<longrightarrow> g5 df = g5 df')"
    using rowwise_options_composite unfolding rowwise_def ..
  note g5 = g50 [THEN conjunct1, rule_format] g50 [THEN conjunct2, rule_format]
  obtain g6 where g60: "(\<forall>df. squeeze_composite df = map (g6 df) df) \<and>
      (\<forall>df df'. mset df = mset df' \<longrightarrow> g6 df = g6 df')"
    using rowwise_squeeze_composite unfolding rowwise_def ..
  note g6 = g60 [THEN conjunct1, rule_format] g60 [THEN conjunct2, rule_format]
  obtain g7 where g70: "(\<forall>df. Composite_Score_col w spy df = map (g7 df) df) \<and>
      (\<forall>df df'. mset df = mset df' \<longrightarrow> g7 df = g7 df')"
    using rowwise_Composite_Score_col unfolding rowwise_def ..
  note g7 = g70 [THEN conjunct1, rule_format] g70 [THEN conjunct2, rule_format]
  obtain g8 where g80: "(\<forall>df. Rank_col w spy df = map (g8 df) df) \<and>
      (\<forall>df df'. mset df = mset df' \<longrightarrow> g8 df = g8 df')"
    using rowwise_Rank_col unfolding rowwise_def ..
  note g8 = g80 [THEN conjunct1, rule_format] g80 [THEN conjunct2, rule_format]
  define G where "G = (\<lambda>df r.
      \<lparr>metrics = r, Volume_Score = g1 df r, Price_Change_Score = g2 df r,
       Relative_Strength_Score = g3 df r, Historical_Vol_Score = g4 df r,
       Options_Score = g5 df r, Short_Squeeze_Score = g6 df r,
       Composite_Score = g7 df r, Rank = g8 df r\<rparr>)"
  have "screening_scores w spy df = map (G df) df" for df
  proof -
    have "screening_scores w spy df = map (\<lambda>i. G df (df ! i)) [0..<length df]"
      unfolding screening_scores_def G_def
      by (rule map_cong [OF refl])
        (simp add: g1(1) [of df] g2(1) [of df] g3(1) [of df] g4(1) [of df]
          g5(1) [of df] g6(1) [of df] g7(1) [of df] g8(1) [of df])
    then show ?thesis by (simp only: map_index_rows)
  qed
  moreover have "G df = G df'" if "mset df = mset df'" for df df'
    unfolding G_def
    by (simp only: g1(2) [OF that] g2(2) [OF that] g3(2) [OF that] g4(2) [OF that]
        g5(2) [OF that] g6(2) [OF that] g7(2) [OF that] g8(2) [OF that])
  ultimately show ?thesis by blast
qed

lemma mset_sort_values_descending: "mset (sort_values_descending rows) = mset rows"
  by (simp add: sort_values_descending_def)

section \<open>Cells of the score columns\<close>

lemma nth_fillna: "i < length s \<Longrightarrow> fillna d s ! i = Some (case s ! i of None \<Rightarrow> d | Some x \<Rightarrow> x)"
  by (cases "s ! i") (simp_all add: fillna_def)

lemma nth_s_scale: "i < length s \<Longrightarrow> s_scale s k ! i = fmul (s ! i) (Some k)"
  by (simp add: s_scale_def)

lemma nth_s_add: "i < length a \<Longrightarrow> i < length b \<Longrightarrow> s_add a b ! i = fadd (a ! i) (b ! i)"
  by (simp add: s_add_def)

lemma nth_s_sub_scalar: "i < length s \<Longrightarrow> s_sub_scalar s k ! i = fsub (s ! i) k"
  by (simp add: s_sub_scalar_def)

lemma nth_normalize_score_Some:
  "i < length s \<Longrightarrow> s ! i = Some x \<Longrightarrow> normalize_score s ! i = Some (percentile_of s x)"
  by (simp add: normalize_score_map)

lemma nth_rank_descending_Some:
  "i < length s \<Longrightarrow> s ! i = Some x \<Longrightarrow>
   rank_descending s ! i = Some (average_rank (rev (sort (present s))) x)"
  by (simp add: rank_descending_def)

lemma nth_present: "i < length s \<Longrightarrow> s ! i = Some x \<Longrightarrow> x \<in> set (present s)"
proof -
  assume "i < length s" and "s ! i = Some x"
  then have "Some x \<in> set s" by (metis nth_mem)
  then have "the (Some x) \<in> the ` {v \<in> set s. v \<noteq> None}" by (intro imageI) simp
  then show ?thesis by (simp add: present_filter)
qed

lemma tie_positions_range: "set (tie_positions x ys k) \<subseteq> {k..<k + length ys}"
proof (induction ys arbitrary: k)
  case Nil
  then show ?case by simp
next
  case (Cons y ys)
  have "set (tie_positions x ys (Suc k)) \<subseteq> {Suc k..<Suc k + length ys}"
    by (rule Cons.IH)
  then show ?case by auto
qed

lemma tie_positions_nonempty: "x \<in> set ys \<Longrightarrow> tie_positions x ys k \<noteq> []"
  by (induction ys arbitrary: k) auto

lemma sum_list_bounds:
  fixes ps :: "nat list"
  assumes "\<forall>p\<in>set ps. lo \<le> p \<and> p \<le> hi"
  shows "length ps * lo \<le> sum_list ps \<and> sum_list ps \<le> length ps * hi"
  using assms
proof (induction ps)
  case Nil
  then show ?case by simp
next
  case (Cons p ps)
  then have "lo \<le> p" "p \<le> hi"
    and "length ps * lo \<le> sum_list ps" "sum_list ps \<le> length ps * hi"
    by simp_all
  then show ?case by simp
qed

lemma average_rank_bounds:
  assumes "x \<in> set ys"
  shows "1 \<le> average_rank ys x \<and> average_rank ys x \<le> of_nat (length ys)"
proof -
  let ?ps = "tie_positions x ys 1"
  have ne: "0 < length ?ps"
    using tie_positions_nonempty [OF assms, of 1] by simp
  have "\<forall>p\<in>set ?ps. 1 \<le> p \<and> p \<le> length ys"
    using tie_positions_range [of x ys 1] by auto
  then have b: "length ?ps * 1 \<le> sum_list ?ps" "sum_list ?ps \<le> length ?ps * length ys"
    using sum_list_bounds [of ?ps 1 "length ys"] by simp_all
  have pos: "(0::rat) < of_nat (length ?ps)" using ne by simp
  have "(of_nat (length ?ps) :: rat) \<le> of_nat (sum_list ?ps)"
    using b(1) by (simp only: of_nat_le_iff mult_1_right)
  then have lo: "1 \<le> (of_nat (sum_list ?ps) :: rat) / of_nat (length ?ps)"
    using pos by (simp add: le_divide_eq)
  have "(of_nat (sum_list ?ps) :: rat) \<le> of_nat (length ?ps * length ys)"
    using b(2) by (simp only: of_nat_le_iff)
  then have hi: "(of_nat (sum_list ?ps) :: rat) / of_nat (length ?ps) \<le> of_nat (length ys)"
    using pos by (simp add: divide_le_eq mult.commute)
  show ?thesis using lo hi by (simp add: average_rank_def Let_def)
qed

lemma percentile_of_bounds:
  assumes "x \<in> set (present s)"
  shows "0 < percentile_of s x \<and> percentile_of s x \<le> 100"
proof -
  let ?n = "length (present s)"
  have n: "(0::rat) < of_nat ?n"
    using assms by (cases "present s") simp_all
  have "x \<in> set (sort (present s))" using assms by simp
  from average_rank_bounds [OF this]
  have a: "1 \<le> average_rank (sort (present s)) x" "average_rank (sort (present s)) x \<le> of_nat ?n"
    by simp_all
  define q where "q = average_rank (sort (present s)) x / of_nat ?n"
  have "0 < q"
    using a(1) n by (simp add: q_def)
  moreover have "q \<le> 1"
    using a(2) n by (simp add: q_def divide_le_eq)
  moreover have "percentile_of s x = q * 100"
    by (simp add: percentile_of_def q_def)
  ultimately show ?thesis by simp
qed

lemma in_0_100_normalize_score:
  assumes "i < length s" and "s ! i = Some x"
  shows "in_0_100 (normalize_score s ! i)"
  using percentile_of_bounds [OF nth_present [OF assms]]
  by (simp add: nth_normalize_score_Some [OF assms] in_0_100_def)

section \<open>Range of the scores\<close>

lemma in_0_100_E: "in_0_100 v \<Longrightarrow> (\<And>x. v = Some x \<Longrightarrow> 0 < x \<Longrightarrow> x \<le> 100 \<Longrightarrow> P) \<Longrightarrow> P"
  by (cases v) (simp_all add: in_0_100_def)

lemma nth_filled_score:
  "i < length df \<Longrightarrow> in_0_100 (normalize_score (fillna d (map f df)) ! i)"
  by (rule in_0_100_normalize_score [where x = "case f (df ! i) of None \<Rightarrow> d | Some x \<Rightarrow> x"])
    (simp_all add: nth_fillna)

lemma nth_price_composite:
  "i < length df \<Longrightarrow> \<exists>x. price_composite df ! i = Some x"
  by (simp add: price_composite_def nth_s_add nth_s_scale nth_fillna fmul_def fadd_def)

lemma nth_relative_strength:
  "i < length df \<Longrightarrow> \<exists>x. relative_strength (Some b) df ! i = Some x"
  by (simp add: relative_strength_def nth_s_sub_scalar nth_fillna fsub_def)

lemma in_0_100_Volume_Score_col: "i < length df \<Longrightarrow> in_0_100 (Volume_Score_col df ! i)"
  unfolding Volume_Score_col_def by (rule nth_filled_score)

lemma in_0_100_Historical_Vol_Score_col: "i < length df \<Longrightarrow> in_0_100 (Historical_Vol_Score_col df ! i)"
  unfolding Historical_Vol_Score_col_def by (rule nth_filled_score)

lemma length_price_composite [simp]: "length (price_composite df) = length df"
  by (simp add: price_composite_def)

lemma length_relative_strength [simp]: "length (relative_strength spy df) = length df"
  by (simp add: relative_strength_def)

lemma in_0_100_Price_Change_Score_col: "i < length df \<Longrightarrow> in_0_100 (Price_Change_Score_col df ! i)"
proof -
  assume i: "i < length df"
  then obtain x where "price_composite df ! i = Some x"
    using nth_price_composite by blast
  with i show ?thesis
    unfolding Price_Change_Score_col_def by (intro in_0_100_normalize_score) simp_all
qed

lemma in_0_100_Relative_Strength_Score_col:
  "i < length df \<Longrightarrow> in_0_100 (Relative_Strength_Score_col (Some b) df ! i)"
proof -
  assume i: "i < length df"
  then obtain x where "relative_strength (Some b) df ! i = Some x"
    using nth_relative_strength by blast
  with i show ?thesis
    unfolding Relative_Strength_Score_col_def by (intro in_0_100_normalize_score) simp_all
qed

lemma part_scale:
  assumes "in_0_100 a" and "0 < p"
  shows "\<exists>x. fmul a (Some p) = Some x \<and> 0 < x \<and> x \<le> 100 * p"
proof -
  from assms(1) obtain x where x: "a = Some x" "0 < x" "x \<le> 100" by (rule in_0_100_E)
  have "0 < x * p" using x(2) assms(2) by (rule mult_pos_pos)
  moreover have "x * p \<le> 100 * p" using x(3) assms(2) by (simp add: mult_right_mono)
  ultimately show ?thesis by (simp add: x(1) fmul_def)
qed

lemma part_add:
  assumes "\<exists>x. u = Some x \<and> 0 < x \<and> x \<le> 100 * p"
    and "\<exists>y. v = Some y \<and> 0 < y \<and> y \<le> 100 * q"
  shows "\<exists>z. fadd u v = Some z \<and> 0 < z \<and> z \<le> 100 * (p + q)"
proof -
  from assms(1) obtain x where x: "u = Some x" "0 < x" "x \<le> 100 * p" by blast
  from assms(2) obtain y where y: "v = Some y" "0 < y" "y \<le> 100 * q" by blast
  have "0 < x + y" and "x + y \<le> 100 * (p + q)"
    using x(2,3) y(2,3) by (simp_all add: distrib_left)
  then show ?thesis by (simp add: x(1) y(1) fadd_def)
qed

lemma part_total:
  assumes "\<exists>x. u = Some x \<and> 0 < x \<and> x \<le> 100 * p" and "p = 1"
  shows "in_0_100 u"
  using assms by (auto simp: in_0_100_def)

lemma mix2:
  assumes "in_0_100 a" and "in_0_100 b" and "0 < p" and "0 < q" and "p + q = 1"
  shows "in_0_100 (fadd (fmul a (Some p)) (fmul b (Some q)))"
  by (rule part_total [OF part_add [OF part_scale part_scale]]) (rule assms)+

lemma mix3:
  assumes "in_0_100 a" and "in_0_100 b" and "in_0_100 c"
    and "0 < p" and "0 < q" and "0 < r" and "p + q + r = 1"
  shows "in_0_100 (fadd (fadd (fmul a (Some p)) (fmul b (Some q))) (fmul c (Some r)))"
  by (rule part_total [OF part_add [OF part_add [OF part_scale part_scale] part_scale]])
    (rule assms)+

lemma mix6:
  assumes "in_0_100 a" and "in_0_100 b" and "in_0_100 c"
    and "in_0_100 d" and "in_0_100 e" and "in_0_100 f"
    and "0 < p" and "0 < q" and "0 < r" and "0 < t" and "0 < u" and "0 < v"
    and "p + q + r + t + u + v = 1"
  shows "in_0_100 (fadd (fadd (fadd (fadd (fadd (fmul a (Some p)) (fmul b (Some q)))
           (fmul c (Some r))) (fmul d (Some t))) (fmul e (Some u))) (fmul f (Some v)))"
  by (rule part_total [OF part_add [OF part_add [OF part_add [OF part_add [OF part_add
        [OF part_scale part_scale] part_scale] part_scale] part_scale] part_scale]])
    (rule assms)+

lemma in_0_100_options_composite: "i < length df \<Longrightarrow> in_0_100 (options_composite df ! i)"
  by (simp add: options_composite_def nth_s_add nth_s_scale mix2 nth_filled_score)

lemma in_0_100_squeeze_composite: "i < length df \<Longrightarrow> in_0_100 (squeeze_composite df ! i)"
  by (simp add: squeeze_composite_def nth_s_add nth_s_scale mix3 nth_filled_score)

lemma length_score_cols [simp]:
  "length (Volume_Score_col df) = length df"
  "length (Price_Change_Score_col df) = length df"
  "length (Relative_Strength_Score_col spy df) = length df"
  "length (Historical_Vol_Score_col df) = length df"
  "length (options_composite df) = length df"
  "length (squeeze_composite df) = length df"
  "length (Composite_Score_col w spy df) = length df"
  "length (Rank_col w spy df) = length df"
  by (simp_all add: Volume_Score_col_def Price_Change_Score_col_def
      Relative_Strength_Score_col_def Historical_Vol_Score_col_def options_composite_def
      squeeze_composite_def Composite_Score_col_def Rank_col_def)

lemma nth_Composite_Score_col:
  "i < length df \<Longrightarrow>
   Composite_Score_col w spy df ! i =
     fadd (fadd (fadd (fadd (fadd
       (fmul (Volume_Score_col df ! i) (Some (volume_score w)))
       (fmul (Price_Change_Score_col df ! i) (Some (price_change_score w))))
       (fmul (Relative_Strength_Score_col spy df ! i) (Some (relative_strength_score w))))
       (fmul (Historical_Vol_Score_col df ! i) (Some (historical_vol_score w))))
       (fmul (options_composite df ! i) (Some (options_score w))))
       (fmul (squeeze_composite df ! i) (Some (short_squeeze_score w)))"
  by (simp add: Composite_Score_col_def nth_s_add nth_s_scale)

lemma in_0_100_Composite_Score_col:
  assumes "i < length df"
  shows "in_0_100 (Composite_Score_col SCREENING_WEIGHTS (Some b) df ! i)"
  unfolding nth_Composite_Score_col [OF assms]
  by (rule mix6)
    (simp_all add: assms in_0_100_Volume_Score_col in_0_100_Price_Change_Score_col
      in_0_100_Relative_Strength_Score_col in_0_100_Historical_Vol_Score_col
      in_0_100_options_composite in_0_100_squeeze_composite SCREENING_WEIGHTS_def)

lemma set_sort_values_descending: "set (sort_values_descending rows) = set rows"
  by (metis mset_sort_values_descending set_mset_mset)

lemma length_screening_scores [simp]: "length (screening_scores w spy df) = length df"
  by (simp add: screening_scores_def)

lemma length_scored_table: "length (scored_table w spy df) = length df"
  by (metis scored_table_def mset_sort_values_descending size_mset length_screening_scores)

lemma scored_table_row:
  assumes "s \<in> set (scored_table w spy df)"
  obtains i where "i < length df" and "s = screening_scores w spy df ! i"
  using assms
  by (auto simp: scored_table_def set_sort_values_descending in_set_conv_nth)

lemma nth_screening_scores:
  "i < length df \<Longrightarrow>
   screening_scores w spy df ! i =
     \<lparr>metrics = df ! i,
      Volume_Score = Volume_Score_col df ! i,
      Price_Change_Score = Price_Change_Score_col df ! i,
      Relative_Strength_Score = Relative_Strength_Score_col spy df ! i,
      Historical_Vol_Score = Historical_Vol_Score_col df ! i,
      Options_Score = options_composite df ! i,
      Short_Squeeze_Score = squeeze_composite df ! i,
      Composite_Score = Composite_Score_col w spy df ! i,
      Rank = Rank_col w spy df ! i\<rparr>"
  by (simp add: screening_scores_def)

section \<open>The stages\<close>

lemma set_tickers_to_keep:
  "set (tickers_to_keep financials tickers) =
     {t \<in> set tickers. \<exists>df. financials t = Inr df \<and> net_income_check df}"
proof (induction tickers)
  case Nil
  then show ?case by simp
next
  case (Cons t ts)
  show ?case
  proof (cases "financials t")
    case (Inl e)
    then show ?thesis using Cons.IH by auto
  next
    case (Inr df)
    then show ?thesis using Cons.IH by (cases "net_income_check df") auto
  qed
qed

lemma three_columns:
  assumes "3 \<le> length cs"
  obtains c0 c1 c2 rest where "cs = c0 # c1 # c2 # rest"
proof (cases cs)
  case Nil
  with assms show ?thesis by simp
next
  case a: (Cons c0 cs1)
  show ?thesis
  proof (cases cs1)
    case Nil
    with assms a show ?thesis by simp
  next
    case b: (Cons c1 cs2)
    show ?thesis
    proof (cases cs2)
      case Nil
      with assms a b show ?thesis by simp
    next
      case (Cons c2 rest)
      with a b that show ?thesis by simp
    qed
  qed
qed

lemma net_income_check_iff:
  assumes "''Net Income'' \<in> set (index df)" and "3 \<le> length (columns df)"
  shows "net_income_check df \<longleftrightarrow>
    (\<exists>newest middle oldest.
       (columns df ! 0) ''Net Income'' = Some newest \<and>
       (columns df ! 1) ''Net Income'' = Some middle \<and>
       (columns df ! 2) ''Net Income'' = Some oldest \<and>
       0 < newest \<and> 0 < middle \<and> 0 < oldest \<and> oldest \<le> middle \<and> middle \<le> newest)"
proof -
  obtain c0 c1 c2 cs where cols: "columns df = c0 # c1 # c2 # cs"
    using assms(2) by (rule three_columns)
  show ?thesis
    using assms(1)
    by (cases "c0 ''Net Income''"; cases "c1 ''Net Income''"; cases "c2 ''Net Income''")
      (auto simp: net_income_check_def cols fgt_def fle_def)
qed

lemma get_all_screening_metrics_ok:
  "get_all_screening_metrics_try md = Inr r \<Longrightarrow> get_all_screening_metrics (Inr md) = r"
  by (simp add: get_all_screening_metrics_def bind_exn_def)

lemma try_volume_ratio:
  "get_all_screening_metrics_try md = Inr r \<Longrightarrow> volume_ratio r = fst (volume_block (hist_30d md))"
  by (auto simp: get_all_screening_metrics_try_def bind_exn_def split: prod.splits sum.splits)

lemma try_changes:
  "get_all_screening_metrics_try md = Inr r \<Longrightarrow>
   (change_1d r, change_5d r, change_20d r) = price_block (hist_30d md)"
  by (auto simp: get_all_screening_metrics_try_def bind_exn_def split: prod.splits sum.splits)

lemma pct_change_cases:
  "0 < p \<Longrightarrow> pct_change (Some c) (Some p) = Some (py_round 2 ((c - p) / p * 100))"
  "\<not> 0 < p \<Longrightarrow> pct_change cur (Some p) = Some 0"
  "pct_change cur None = Some 0"
  "0 < p \<Longrightarrow> pct_change None (Some p) = None"
  by (simp_all add: pct_change_def fgt_def fround_def fmul_def fdiv_def fsub_def)

lemma in_0_100_Some: "in_0_100 v \<Longrightarrow> \<exists>x. v = Some x"
  by (cases v) (simp_all add: in_0_100_def)

lemma length_present_le: "length (present s) \<le> length s"
  by (simp add: present_filter)

lemma nth_Composite_Score_col_Some:
  assumes "i < length df"
  shows "\<exists>c. Composite_Score_col w (Some b) df ! i = Some c"
proof -
  obtain v1 where v1: "Volume_Score_col df ! i = Some v1"
    using in_0_100_Some [OF in_0_100_Volume_Score_col [OF assms]] by blast
  obtain v2 where v2: "Price_Change_Score_col df ! i = Some v2"
    using in_0_100_Some [OF in_0_100_Price_Change_Score_col [OF assms]] by blast
  obtain v3 where v3: "Relative_Strength_Score_col (Some b) df ! i = Some v3"
    using in_0_100_Some [OF in_0_100_Relative_Strength_Score_col [OF assms]] by blast
  obtain v4 where v4: "Historical_Vol_Score_col df ! i = Some v4"
    using in_0_100_Some [OF in_0_100_Historical_Vol_Score_col [OF assms]] by blast
  obtain v5 where v5: "options_composite df ! i = Some v5"
    using in_0_100_Some [OF in_0_100_options_composite [OF assms]] by blast
  obtain v6 where v6: "squeeze_composite df ! i = Some v6"
    using in_0_100_Some [OF in_0_100_squeeze_composite [OF assms]] by blast
  show ?thesis
    by (simp add: nth_Composite_Score_col [OF assms] v1 v2 v3 v4 v5 v6 fmul_def fadd_def)
qed

lemma nth_Rank_col_bounds:
  assumes "i < length df"
  shows "\<exists>k. Rank_col w (Some b) df ! i = Some k \<and> 1 \<le> k \<and> k \<le> of_nat (length df)"
proof -
  let ?col = "Composite_Score_col w (Some b) df"
  obtain c where c: "?col ! i = Some c"
    using nth_Composite_Score_col_Some [OF assms] by blast
  have i: "i < length ?col" using assms by simp
  have "c \<in> set (rev (sort (present ?col)))"
    using nth_present [OF i c] by simp
  from average_rank_bounds [OF this]
  have "1 \<le> average_rank (rev (sort (present ?col))) c"
    and "average_rank (rev (sort (present ?col))) c \<le> of_nat (length (present ?col))"
    by simp_all
  moreover have "(of_nat (length (present ?col)) :: rat) \<le> of_nat (length df)"
    using length_present_le [of ?col] by simp
  ultimately show ?thesis
    by (simp add: Rank_col_def nth_rank_descending_Some [OF i c])
qed

text \<open>The outcomes of the listing fetch for which the body of \<^verbatim>\<open>get_sp500_tickers\<close>
  raises: the fetch itself raises, there is no table, or the first table has neither symbol
  column.\<close>

lemma map_of_None_iff: "map_of df k = None \<longleftrightarrow> k \<notin> set (map fst df)"
  by (simp add: map_of_eq_None_iff)

lemma get_sp500_tickers_try_fails_iff:
  "(\<exists>e. get_sp500_tickers_try l = Inl e) \<longleftrightarrow>
     l = Read_Html_Raises \<or> l = Tables [] \<or>
     (\<exists>df rest. l = Tables (df # rest) \<and>
        ''Symbol'' \<notin> set (map fst df) \<and> ''Ticker symbol'' \<notin> set (map fst df))"
proof (cases l)
  case Read_Html_Raises
  then show ?thesis by (simp add: get_sp500_tickers_try_def)
next
  case (Tables tables)
  show ?thesis
  proof (cases tables)
    case Nil
    with Tables show ?thesis by (simp add: get_sp500_tickers_try_def)
  next
    case (Cons df rest)
    have a: "''Symbol'' \<in> set (map fst df) \<Longrightarrow> \<exists>cells. map_of df ''Symbol'' = Some cells"
      using map_of_None_iff [of df "''Symbol''"] by auto
    have b: "''Ticker symbol'' \<in> set (map fst df) \<Longrightarrow> \<exists>cells. map_of df ''Ticker symbol'' = Some cells"
      using map_of_None_iff [of df "''Ticker symbol''"] by auto
    show ?thesis
      using Tables Cons a b
      by (cases "''Symbol'' \<in> set (map fst df)"; cases "''Ticker symbol'' \<in> set (map fst df)")
        (auto simp: get_sp500_tickers_try_def)
  qed
qed

section \<open>The benchmark return in the scores\<close>

text \<open>
  When the benchmark return is a number, a row whose metrics are all missing has a row in
  the result; each of its sub-scores is the percentile of the imputed default (0, or 1 for
  the put/call proxy) in its column, and its composite score and its rank are numbers, the
  rank between 1 and the number of rows.
\<close>

lemma all_missing_row_scored:
  assumes "r \<in> set df" and "all_missing r"
  shows "\<exists>s\<in>set (scored_table w (Some b) df).
     metrics s = r \<and>
     Volume_Score s = Some (percentile_of (fillna 0 (map Volume_Ratio df)) 0) \<and>
     Price_Change_Score s = Some (percentile_of (price_composite df) 0) \<and>
     Relative_Strength_Score s = Some (percentile_of (relative_strength (Some b) df) (0 - b)) \<and>
     Historical_Vol_Score s = Some (percentile_of (fillna 0 (map Historical_Vol_Past_1_Year df)) 0) \<and>
     Options_Score s =
       Some (percentile_of (fillna 0 (map Options_Proxy df)) 0 * (7 / 10) +
             percentile_of (fillna 1 (map Put_Call_Proxy df)) 1 * (3 / 10)) \<and>
     Short_Squeeze_Score s =
       Some (percentile_of (fillna 0 (map Short_Percent df)) 0 * (5 / 10) +
             percentile_of (fillna 0 (map Short_Ratio df)) 0 * (3 / 10) +
             percentile_of (fillna 0 (map Price_Change_5d df)) 0 * (2 / 10)) \<and>
     (\<exists>c k. Composite_Score s = Some c \<and> Rank s = Some k \<and> 1 \<le> k \<and> k \<le> of_nat (length df))"
proof -
  from assms(1) obtain i where i: "i < length df" and r: "df ! i = r"
    by (auto simp: in_set_conv_nth)
  let ?s = "screening_scores w (Some b) df ! i"
  have mem: "?s \<in> set (scored_table w (Some b) df)"
    using i by (simp add: scored_table_def set_sort_values_descending)
  note m = assms(2) [unfolded all_missing_def, folded r]
  have filled: "fillna d (map f df) ! i = Some d" if "f (df ! i) = None" for f d
    using i that by (simp add: nth_fillna)
  have pc: "price_composite df ! i = Some 0"
    using i m by (simp add: price_composite_def nth_s_add nth_s_scale filled fmul_def fadd_def)
  have rs: "relative_strength (Some b) df ! i = Some (0 - b)"
    using i m by (simp add: relative_strength_def nth_s_sub_scalar filled fsub_def)
  have 1: "Volume_Score_col df ! i = Some (percentile_of (fillna 0 (map Volume_Ratio df)) 0)"
    using i m by (simp add: Volume_Score_col_def nth_normalize_score_Some filled)
  have 2: "Price_Change_Score_col df ! i = Some (percentile_of (price_composite df) 0)"
    using i pc by (simp add: Price_Change_Score_col_def nth_normalize_score_Some)
  have 3: "Relative_Strength_Score_col (Some b) df ! i
      = Some (percentile_of (relative_strength (Some b) df) (0 - b))"
    using i rs by (simp add: Relative_Strength_Score_col_def nth_normalize_score_Some)
  have 4: "Historical_Vol_Score_col df ! i
      = Some (percentile_of (fillna 0 (map Historical_Vol_Past_1_Year df)) 0)"
    using i m by (simp add: Historical_Vol_Score_col_def nth_normalize_score_Some filled)
  have 5: "options_composite df ! i =
       Some (percentile_of (fillna 0 (map Options_Proxy df)) 0 * (7 / 10) +
             percentile_of (fillna 1 (map Put_Call_Proxy df)) 1 * (3 / 10))"
    using i m
    by (simp add: options_composite_def nth_s_add nth_s_scale nth_normalize_score_Some filled
        fmul_def fadd_def)
  have 6: "squeeze_composite df ! i =
       Some (percentile_of (fillna 0 (map Short_Percent df)) 0 * (5 / 10) +
             percentile_of (fillna 0 (map Short_Ratio df)) 0 * (3 / 10) +
             percentile_of (fillna 0 (map Price_Change_5d df)) 0 * (2 / 10))"
    using i m
    by (simp add: squeeze_composite_def nth_s_add nth_s_scale nth_normalize_score_Some filled
        fmul_def fadd_def)
  obtain c where c: "Composite_Score_col w (Some b) df ! i = Some c"
    using nth_Composite_Score_col_Some [OF i] by blast
  obtain k where k: "Rank_col w (Some b) df ! i = Some k" "1 \<le> k" "k \<le> of_nat (length df)"
    using nth_Rank_col_bounds [OF i] by blast
  have "metrics ?s = r \<and>
     Volume_Score ?s = Some (percentile_of (fillna 0 (map Volume_Ratio df)) 0) \<and>
     Price_Change_Score ?s = Some (percentile_of (price_composite df) 0) \<and>
     Relative_Strength_Score ?s = Some (percentile_of (relative_strength (Some b) df) (0 - b)) \<and>
     Historical_Vol_Score ?s = Some (percentile_of (fillna 0 (map Historical_Vol_Past_1_Year df)) 0) \<and>
     Options_Score ?s =
       Some (percentile_of (fillna 0 (map Options_Proxy df)) 0 * (7 / 10) +
             percentile_of (fillna 1 (map Put_Call_Proxy df)) 1 * (3 / 10)) \<and>
     Short_Squeeze_Score ?s =
       Some (percentile_of (fillna 0 (map Short_Percent df)) 0 * (5 / 10) +
             percentile_of (fillna 0 (map Short_Ratio df)) 0 * (3 / 10) +
             percentile_of (fillna 0 (map Price_Change_5d df)) 0 * (2 / 10)) \<and>
     (\<exists>c k. Composite_Score ?s = Some c \<and> Rank ?s = Some k \<and> 1 \<le> k \<and> k \<le> of_nat (length df))"
    unfolding nth_screening_scores [OF i]
    using r 1 2 3 4 5 6 c k by simp
  with mem show ?thesis by blast
qed

lemma all_missing_row_scored_witness:
  "missing_row ''A'' \<in> set [missing_row ''A'', flat_row ''B'' 3] \<and>
   all_missing (missing_row ''A'') \<and>
   (\<exists>s\<in>set (scored_table SCREENING_WEIGHTS (Some 2) [missing_row ''A'', flat_row ''B'' 3]).
      metrics s = missing_row ''A'' \<and> (\<exists>c k. Composite_Score s = Some c \<and> Rank s = Some k))"
proof -
  have 1: "missing_row ''A'' \<in> set [missing_row ''A'', flat_row ''B'' 3]" by simp
  have 2: "all_missing (missing_row ''A'')" by (simp add: all_missing_def missing_row_def)
  show ?thesis
    using all_missing_row_scored [OF 1 2, of SCREENING_WEIGHTS 2] 1 2 by blast
qed

text \<open>
  When the benchmark return is a number and the snapshot is not empty, with the weight table
  of the module (whose weights sum to 1), the result is non-empty and in every row the six
  sub-scores and the composite score are numbers greater than 0 and at most 100.
\<close>

lemma scores_in_0_100:
  assumes "df \<noteq> []"
  shows "weight_sum SCREENING_WEIGHTS = 1 \<and>
    scored_table SCREENING_WEIGHTS (Some b) df \<noteq> [] \<and>
    (\<forall>s\<in>set (scored_table SCREENING_WEIGHTS (Some b) df).
       in_0_100 (Volume_Score s) \<and> in_0_100 (Price_Change_Score s) \<and>
       in_0_100 (Relative_Strength_Score s) \<and> in_0_100 (Historical_Vol_Score s) \<and>
       in_0_100 (Options_Score s) \<and> in_0_100 (Short_Squeeze_Score s) \<and>
       in_0_100 (Composite_Score s))"
proof (intro conjI ballI)
  show "weight_sum SCREENING_WEIGHTS = 1"
    by (simp add: weight_sum_def SCREENING_WEIGHTS_def)
next
  show "scored_table SCREENING_WEIGHTS (Some b) df \<noteq> []"
    using assms length_scored_table [of SCREENING_WEIGHTS "Some b" df] by auto
next
  fix s assume "s \<in> set (scored_table SCREENING_WEIGHTS (Some b) df)"
  then obtain i where i: "i < length df"
    and s: "s = screening_scores SCREENING_WEIGHTS (Some b) df ! i"
    by (rule scored_table_row)
  note f = s [unfolded nth_screening_scores [OF i]]
  show "in_0_100 (Volume_Score s)"
    by (simp add: f in_0_100_Volume_Score_col [OF i])
  show "in_0_100 (Price_Change_Score s)"
    by (simp add: f in_0_100_Price_Change_Score_col [OF i])
  show "in_0_100 (Relative_Strength_Score s)"
    by (simp add: f in_0_100_Relative_Strength_Score_col [OF i])
  show "in_0_100 (Historical_Vol_Score s)"
    by (simp add: f in_0_100_Historical_Vol_Score_col [OF i])
  show "in_0_100 (Options_Score s)"
    by (simp add: f in_0_100_options_composite [OF i])
  show "in_0_100 (Short_Squeeze_Score s)"
    by (simp add: f in_0_100_squeeze_composite [OF i])
  show "in_0_100 (Composite_Score s)"
    by (simp add: f in_0_100_Composite_Score_col [OF i])
qed

lemma scores_in_0_100_witness:
  "[missing_row ''A'', flat_row ''B'' 3] \<noteq> [] \<and>
   scored_table SCREENING_WEIGHTS (Some 2) [missing_row ''A'', flat_row ''B'' 3] \<noteq> [] \<and>
   list_all (\<lambda>s. in_0_100 (Composite_Score s) \<and> in_0_100 (Options_Score s))
     (scored_table SCREENING_WEIGHTS (Some 2) [missing_row ''A'', flat_row ''B'' 3])"
  using scores_in_0_100 [of "[missing_row ''A'', flat_row ''B'' 3]" 2]
  by (simp add: list_all_iff)

text \<open>
  When the benchmark return is \<^verbatim>\<open>NaN\<close>, the subtraction that forms the relative strength
  gives \<^verbatim>\<open>NaN\<close> in every row, and so do the relative-strength score, the composite score
  and the rank, for any snapshot and any weights.
\<close>

lemma fadd_None [simp]: "fadd a None = None" "fadd None b = None"
  by (cases a) (simp_all add: fadd_def)

lemma nan_benchmark_every_row:
  assumes "s \<in> set (scored_table w None df)"
  shows "Relative_Strength_Score s = None \<and> Composite_Score s = None \<and> Rank s = None"
proof -
  from assms obtain i where i: "i < length df" and s: "s = screening_scores w None df ! i"
    by (rule scored_table_row)
  have rs: "Relative_Strength_Score_col None df ! i = None"
    using i
    by (simp add: Relative_Strength_Score_col_def nth_normalize_score relative_strength_def
        nth_s_sub_scalar nth_fillna fsub_def)
  have c: "Composite_Score_col w None df ! i = None"
    by (simp add: nth_Composite_Score_col [OF i] rs fmul_def)
  have "rank_descending (Composite_Score_col w None df) ! i = None"
    using i c by (simp add: rank_descending_def)
  then show ?thesis
    by (simp add: s nth_screening_scores [OF i] rs c Rank_col_def)
qed

section \<open>Claims about the percentile normalisation\<close>

text \<open>
  Claim C3. For a column of \<open>N\<close> numeric values with no ties, the scores that
  \<^verbatim>\<open>normalize_score\<close> produces are, as a multiset, exactly \<open>100/N, 200/N, \<dots>, 100\<close>:
  a permutation of that list.
\<close>

theorem normalize_score_no_ties:
  assumes "None \<notin> set vs" and "distinct vs"
  shows "mset (normalize_score vs) =
           mset (map (\<lambda>k. Some (of_nat k / of_nat (length vs) * 100)) [1..<Suc (length vs)])"
proof -
  define xs where "xs = present vs"
  have vs: "vs = map Some xs"
    using assms(1) by (simp add: xs_def present_all_Some)
  have dxs: "distinct xs"
    using assms(2) by (simp add: vs distinct_map)
  have pres: "present vs = xs" by (simp add: xs_def)
  define g :: "nat \<Rightarrow> fl" where "g = (\<lambda>k. Some (of_nat (Suc k) / of_nat (length xs) * 100))"
  have "normalize_score vs = map (\<lambda>x. g (length (filter (\<lambda>y. y < x) xs))) xs"
  proof (rule nth_equalityI)
    show "length (normalize_score vs) = length (map (\<lambda>x. g (length (filter (\<lambda>y. y < x) xs))) xs)"
      by (simp add: normalize_score_def rank_pct_def s_scale_def vs)
  next
    fix i assume "i < length (normalize_score vs)"
    then have i: "i < length xs"
      by (simp add: normalize_score_def rank_pct_def s_scale_def vs)
    then have "xs ! i \<in> set xs" by simp
    then have "length (filter (\<lambda>y. y = xs ! i) xs) = 1"
      using dxs by (simp add: count_tied_distinct)
    then have ar: "average_rank (sort xs) (xs ! i) = of_nat (Suc (length (filter (\<lambda>y. y < xs ! i) xs)))"
      by (simp add: average_rank_sort)
    have "i < length vs" and "vs ! i = Some (xs ! i)"
      using i by (simp_all add: vs)
    then have "normalize_score vs ! i
        = Some (average_rank (sort xs) (xs ! i) / of_nat (length xs) * 100)"
      by (simp add: nth_normalize_score pres)
    also have "\<dots> = g (length (filter (\<lambda>y. y < xs ! i) xs))"
      by (simp only: ar g_def)
    finally show "normalize_score vs ! i = map (\<lambda>x. g (length (filter (\<lambda>y. y < x) xs))) xs ! i"
      using i by simp
  qed
  then have "normalize_score vs = map g (map (\<lambda>x. length (filter (\<lambda>y. y < x) xs)) xs)"
    by simp
  then have "mset (normalize_score vs) = image_mset g (mset (map (\<lambda>x. length (filter (\<lambda>y. y < x) xs)) xs))"
    by (simp only: mset_map)
  also have "\<dots> = image_mset g (mset [0..<length xs])"
    using dxs by (simp only: mset_count_below)
  also have "\<dots> = mset (map g [0..<length xs])"
    by (simp only: mset_map)
  also have "map g [0..<length xs]
      = map (\<lambda>k. Some (of_nat k / of_nat (length xs) * 100)) (map Suc [0..<length xs])"
    by (simp only: map_map comp_def g_def)
  also have "map Suc [0..<length xs] = [1..<Suc (length xs)]"
    by (simp only: map_Suc_upt One_nat_def)
  finally show ?thesis by (simp add: vs)
qed

theorem normalize_score_no_ties_witness:
  "None \<notin> set [Some 7, Some (-2), Some (1 / 2)] \<and> distinct [Some 7, Some (-2), Some (1 / 2 :: rat)] \<and>
   mset (normalize_score [Some 7, Some (-2), Some (1 / 2)]) =
     mset [Some (1 / 3 * 100), Some (2 / 3 * 100), Some (3 / 3 * 100)]"
  using normalize_score_no_ties [of "[Some 7, Some (-2), Some (1 / 2)]"]
  by (simp add: upt_rec)

text \<open>
  Claim C4. In a column with ties, every member of a tie group gets the same score, and
  that score is the mean of the ranks the group occupies (the ranks \<open>L + 1, \<dots>, L + E\<close>
  for a group of \<open>E\<close> equal values above \<open>L\<close> smaller ones), divided by the number of
  values present and multiplied by 100.
\<close>

theorem normalize_score_ties:
  assumes "i < length vs" and "vs ! i = Some x"
  shows "normalize_score vs ! i =
           Some (of_nat (\<Sum>k = length (filter (\<lambda>y. y < x) (present vs)) + 1 ..
                    length (filter (\<lambda>y. y < x) (present vs)) + length (filter (\<lambda>y. y = x) (present vs)). k)
                  / of_nat (length (filter (\<lambda>y. y = x) (present vs)))
                  / of_nat (length (present vs)) * 100)
         \<and> (\<forall>j < length vs. vs ! j = vs ! i \<longrightarrow> normalize_score vs ! j = normalize_score vs ! i)"
  using assms by (simp add: nth_normalize_score average_rank_sort del: sum.op_ivl_Suc)

theorem normalize_score_ties_witness:
  "(2::nat) < length [Some 3, Some 1, Some (3::rat)] \<and> [Some 3, Some 1, Some (3::rat)] ! 2 = Some 3 \<and>
   normalize_score [Some 3, Some 1, Some 3] ! 2 = Some (of_nat (2 + 3) / 2 / 3 * 100) \<and>
   normalize_score [Some 3, Some 1, Some 3] ! 0 = normalize_score [Some 3, Some 1, Some 3] ! 2"
  using normalize_score_ties [of 2 "[Some 3, Some 1, Some 3]" 3]
  by (simp add: present_def numeral_3_eq_3)

section \<open>Claims about the Fundamental Filter\<close>

text \<open>
  Claim C1. A ticker of the universe whose financials were fetched and contain a
  \<^verbatim>\<open>Net Income\<close> line with at least three fiscal periods is kept by the filter if and only
  if its three most recent net-income values are all strictly positive and do not decrease
  from the oldest to the newest; a ticker with fewer than three periods, or without a
  net-income line, is not in the output. (The provider delivers the newest period first:
  column 0 is the newest, column 2 the oldest.)
\<close>

theorem fundamental_filter_retains:
  assumes "ticker \<in> set tickers" and "financials ticker = Inr df"
  shows "(''Net Income'' \<in> set (index df) \<and> 3 \<le> length (columns df) \<longrightarrow>
           (ticker \<in> set (tickers_to_keep financials tickers) \<longleftrightarrow>
             (\<exists>newest middle oldest.
                (columns df ! 0) ''Net Income'' = Some newest \<and>
                (columns df ! 1) ''Net Income'' = Some middle \<and>
                (columns df ! 2) ''Net Income'' = Some oldest \<and>
                0 < newest \<and> 0 < middle \<and> 0 < oldest \<and> oldest \<le> middle \<and> middle \<le> newest)))
       \<and> (''Net Income'' \<notin> set (index df) \<or> length (columns df) < 3 \<longrightarrow>
           ticker \<notin> set (tickers_to_keep financials tickers))"
proof (intro conjI impI)
  assume "''Net Income'' \<in> set (index df) \<and> 3 \<le> length (columns df)"
  then show "ticker \<in> set (tickers_to_keep financials tickers) \<longleftrightarrow>
             (\<exists>newest middle oldest.
                (columns df ! 0) ''Net Income'' = Some newest \<and>
                (columns df ! 1) ''Net Income'' = Some middle \<and>
                (columns df ! 2) ''Net Income'' = Some oldest \<and>
                0 < newest \<and> 0 < middle \<and> 0 < oldest \<and> oldest \<le> middle \<and> middle \<le> newest)"
    using assms net_income_check_iff [of df] by (simp add: set_tickers_to_keep)
next
  assume "''Net Income'' \<notin> set (index df) \<or> length (columns df) < 3"
  then have "\<not> net_income_check df"
    by (auto simp: net_income_check_def)
  then show "ticker \<notin> set (tickers_to_keep financials tickers)"
    using assms by (simp add: set_tickers_to_keep)
qed

theorem fundamental_filter_retains_witness:
  "''A'' \<in> set [''A'', ''C''] \<and> ''C'' \<in> set [''A'', ''C''] \<and>
   (\<lambda>t. if t = ''C'' then Inr fin_two_periods else Inr fin_rising) ''A'' = Inr fin_rising \<and>
   (\<lambda>t. if t = ''C'' then Inr fin_two_periods else Inr fin_rising) ''C'' = Inr fin_two_periods \<and>
   ''Net Income'' \<in> set (index fin_rising) \<and> 3 \<le> length (columns fin_rising) \<and>
   length (columns fin_two_periods) < 3 \<and>
   ''A'' \<in> set (tickers_to_keep (\<lambda>t. if t = ''C'' then Inr fin_two_periods else Inr fin_rising) [''A'', ''C'']) \<and>
   ''C'' \<notin> set (tickers_to_keep (\<lambda>t. if t = ''C'' then Inr fin_two_periods else Inr fin_rising) [''A'', ''C''])"
  using fundamental_filter_retains [of "''A''" "[''A'', ''C'']"
      "\<lambda>t. if t = ''C'' then Inr fin_two_periods else Inr fin_rising" fin_rising]
    fundamental_filter_retains [of "''C''" "[''A'', ''C'']"
      "\<lambda>t. if t = ''C'' then Inr fin_two_periods else Inr fin_rising" fin_two_periods]
  by (simp add: fin_rising_def fin_two_periods_def)

section \<open>Claims about the weight configuration\<close>

text \<open>
  Claim C2, as the code has it. The weight table is the module constant, whose six weights
  sum to 1. The scoring stage does not validate the table it is given: for any weights, when
  its input file and the data directory exist, it writes the result table, and the composite
  score is the plain weighted sum of the six sub-scores with the weights as given (no
  renormalisation).
\<close>

theorem weights_not_validated:
  "weight_sum SCREENING_WEIGHTS = 1 \<and>
   (f03_raw fs = Some df \<and> data_dir fs \<longrightarrow>
      calculate_screening_scores w spy fs
        = Inr (fs\<lparr>f04_results := Some (scored_table w spy df)\<rparr>)) \<and>
   (\<forall>i<length df.
      Composite_Score_col w spy df ! i =
        fadd (fadd (fadd (fadd (fadd
          (fmul (Volume_Score_col df ! i) (Some (volume_score w)))
          (fmul (Price_Change_Score_col df ! i) (Some (price_change_score w))))
          (fmul (Relative_Strength_Score_col spy df ! i) (Some (relative_strength_score w))))
          (fmul (Historical_Vol_Score_col df ! i) (Some (historical_vol_score w))))
          (fmul (options_composite df ! i) (Some (options_score w))))
          (fmul (squeeze_composite df ! i) (Some (short_squeeze_score w))))"
proof (intro conjI allI impI)
  show "weight_sum SCREENING_WEIGHTS = 1"
    by (simp add: weight_sum_def SCREENING_WEIGHTS_def)
next
  assume "f03_raw fs = Some df \<and> data_dir fs"
  then show "calculate_screening_scores w spy fs
        = Inr (fs\<lparr>f04_results := Some (scored_table w spy df)\<rparr>)"
    by (simp add: calculate_screening_scores_def to_csv_def)
next
  fix i assume "i < length df"
  then show "Composite_Score_col w spy df ! i =
        fadd (fadd (fadd (fadd (fadd
          (fmul (Volume_Score_col df ! i) (Some (volume_score w)))
          (fmul (Price_Change_Score_col df ! i) (Some (price_change_score w))))
          (fmul (Relative_Strength_Score_col spy df ! i) (Some (relative_strength_score w))))
          (fmul (Historical_Vol_Score_col df ! i) (Some (historical_vol_score w))))
          (fmul (options_composite df ! i) (Some (options_score w))))
          (fmul (squeeze_composite df ! i) (Some (short_squeeze_score w)))"
    by (rule nth_Composite_Score_col)
qed

theorem weights_not_validated_witness:
  "f03_raw fs_with_raw = Some [missing_row ''AAA''] \<and> data_dir fs_with_raw \<and>
   calculate_screening_scores weights_sum_2 (Some 2) fs_with_raw
     = Inr (fs_with_raw\<lparr>f04_results := Some (scored_table weights_sum_2 (Some 2) [missing_row ''AAA''])\<rparr>) \<and>
   (0::nat) < length [missing_row ''AAA''] \<and>
   Composite_Score_col weights_sum_2 (Some 2) [missing_row ''AAA''] ! 0 = Some 200"
proof -
  have pre: "f03_raw fs_with_raw = Some [missing_row ''AAA''] \<and> data_dir fs_with_raw"
    by (simp add: fs_with_raw_def)
  have v: "fadd (fadd (fadd (fadd (fadd
          (fmul (Volume_Score_col [missing_row ''AAA''] ! 0) (Some (volume_score weights_sum_2)))
          (fmul (Price_Change_Score_col [missing_row ''AAA''] ! 0) (Some (price_change_score weights_sum_2))))
          (fmul (Relative_Strength_Score_col (Some 2) [missing_row ''AAA''] ! 0) (Some (relative_strength_score weights_sum_2))))
          (fmul (Historical_Vol_Score_col [missing_row ''AAA''] ! 0) (Some (historical_vol_score weights_sum_2))))
          (fmul (options_composite [missing_row ''AAA''] ! 0) (Some (options_score weights_sum_2))))
          (fmul (squeeze_composite [missing_row ''AAA''] ! 0) (Some (short_squeeze_score weights_sum_2)))
        = Some 200"
    by code_simp
  show ?thesis
    using weights_not_validated [of fs_with_raw "[missing_row ''AAA'']" weights_sum_2 "Some 2"] pre v
    by simp
qed

text \<open>A weight table whose weights sum to 2 is not rejected: the stage writes its result,
  with a composite score of 200.\<close>

theorem weights_sum_2_accepted:
  "\<not> \<bar>weight_sum weights_sum_2 - 1\<bar> \<le> 1 / 10 ^ 9 \<and>
   \<not> isl (calculate_screening_scores weights_sum_2 (Some 2) fs_with_raw) \<and>
   map Composite_Score
     (the (f04_results (projr (calculate_screening_scores weights_sum_2 (Some 2) fs_with_raw))))
     = [Some 200]"
  by code_simp

section \<open>Claims about the Composite Scorer\<close>

text \<open>
  Claim C5. The scored table is a function of the rows of the snapshot as a multiset: for
  every permutation of the rows the result has the same rows (scores and rank included), in
  particular every ticker keeps its composite score.
\<close>

theorem composite_score_order_invariant:
  assumes "mset df' = mset df"
  shows "mset (scored_table w spy df') = mset (scored_table w spy df)
       \<and> mset (map (\<lambda>s. (Ticker (metrics s), Composite_Score s)) (scored_table w spy df'))
         = mset (map (\<lambda>s. (Ticker (metrics s), Composite_Score s)) (scored_table w spy df))"
proof -
  obtain G where G: "\<And>df. screening_scores w spy df = map (G df) df"
      "\<And>df df'. mset df = mset df' \<Longrightarrow> G df = G df'"
    using screening_scores_rowwise [of w spy] by blast
  have "mset (screening_scores w spy df') = image_mset (G df') (mset df')"
    by (simp only: G(1) mset_map)
  also have "\<dots> = image_mset (G df) (mset df)"
    by (simp only: G(2) [OF assms] assms)
  also have "\<dots> = mset (screening_scores w spy df)"
    by (simp only: G(1) mset_map)
  finally have "mset (scored_table w spy df') = mset (scored_table w spy df)"
    by (simp only: scored_table_def mset_sort_values_descending)
  then show ?thesis
    by (simp only: mset_map simp_thms)
qed

theorem composite_score_order_invariant_witness:
  "mset [flat_row ''B'' 3, missing_row ''A''] = mset [missing_row ''A'', flat_row ''B'' 3] \<and>
   mset (scored_table SCREENING_WEIGHTS (Some 2) [flat_row ''B'' 3, missing_row ''A''])
     = mset (scored_table SCREENING_WEIGHTS (Some 2) [missing_row ''A'', flat_row ''B'' 3])"
proof -
  have pre: "mset [flat_row ''B'' 3, missing_row ''A''] = mset [missing_row ''A'', flat_row ''B'' 3]"
    by (simp add: add_mset_commute)
  show ?thesis
    using composite_score_order_invariant [OF pre, of SCREENING_WEIGHTS "Some 2"] pre
    by (simp only: simp_thms)
qed

text \<open>
  Claim C8. The scorer imputes every metric column, so that the missing metrics of a row
  never reach the rank, and the benchmark block puts the default 2.0 in place of the
  benchmark return when the fetch raises. A SPY history whose latest close is \<^verbatim>\<open>NaN\<close>
  raises nothing: \<^verbatim>\<open>spy_return_20d\<close> is then \<^verbatim>\<open>NaN\<close>, and for a snapshot with a row whose
  metrics are all missing the rows are still produced, but the relative-strength score, the
  composite score and the rank of every row are \<^verbatim>\<open>NaN\<close>.
\<close>

theorem nan_benchmark_reaches_rank:
  "all_missing (missing_row ''A'') \<and>
   map metrics (scored_table SCREENING_WEIGHTS None [missing_row ''A'', flat_row ''B'' 3])
     = [missing_row ''A'', flat_row ''B'' 3] \<and>
   map Relative_Strength_Score (scored_table SCREENING_WEIGHTS None [missing_row ''A'', flat_row ''B'' 3])
     = [None, None] \<and>
   map Composite_Score (scored_table SCREENING_WEIGHTS None [missing_row ''A'', flat_row ''B'' 3])
     = [None, None] \<and>
   map Rank (scored_table SCREENING_WEIGHTS None [missing_row ''A'', flat_row ''B'' 3])
     = [None, None]"
  by code_simp

text \<open>
  Claim C10. With the same \<^verbatim>\<open>NaN\<close> benchmark return and a non-empty snapshot, the
  relative-strength score and the composite score of every row are not numbers in the
  interval from 0 (excluded) to 100, while a score that does not use the benchmark is.
\<close>

theorem nan_benchmark_scores_out_of_range:
  "[missing_row ''A'', flat_row ''B'' 3] \<noteq> [] \<and>
   weight_sum SCREENING_WEIGHTS = 1 \<and>
   map in_0_100 (map Relative_Strength_Score
     (scored_table SCREENING_WEIGHTS None [missing_row ''A'', flat_row ''B'' 3])) = [False, False] \<and>
   map in_0_100 (map Composite_Score
     (scored_table SCREENING_WEIGHTS None [missing_row ''A'', flat_row ''B'' 3])) = [False, False] \<and>
   map in_0_100 (map Volume_Score
     (scored_table SCREENING_WEIGHTS None [missing_row ''A'', flat_row ''B'' 3])) = [True, True]"
  by code_simp

section \<open>Claims about the Metrics Collector\<close>

text \<open>
  Claim C6, as the code has it. When the collection of a ticker raises no exception, its
  \<^verbatim>\<open>volume_ratio\<close> is missing if the 30-day history has fewer than 20 rows; otherwise it is
  the latest volume divided by the mean of the last 20 volumes, rounded to two decimals, if
  that mean is positive, and the number 0 (not missing) if the mean is not positive.
\<close>

theorem volume_ratio_computed:
  assumes "get_all_screening_metrics_try md = Inr r"
  shows "volume_ratio (get_all_screening_metrics (Inr md)) =
    (if length (hist_30d md) < 20 then None
     else if 0 < (of_int (sum_list (map Volume (drop (length (hist_30d md) - 20) (hist_30d md)))) / 20 :: rat)
     then Some (py_round 2 (of_int (Volume (last (hist_30d md))) /
            (of_int (sum_list (map Volume (drop (length (hist_30d md) - 20) (hist_30d md)))) / 20)))
     else Some 0)"
  using assms
  by (auto simp: get_all_screening_metrics_ok try_volume_ratio volume_block_def Let_def py_round_def
      round_half_even_def)

theorem volume_ratio_computed_witness:
  "get_all_screening_metrics_try md_active
     = Inr (get_all_screening_metrics (Inr md_active)) \<and>
   volume_ratio (get_all_screening_metrics (Inr md_active)) = Some (273 / 100)"
proof -
  have ok: "get_all_screening_metrics_try md_active
      = Inr (get_all_screening_metrics (Inr md_active))"
    by code_simp
  have v: "(if length (hist_30d md_active) < 20 then None
     else if 0 < (of_int (sum_list (map Volume (drop (length (hist_30d md_active) - 20) (hist_30d md_active)))) / 20 :: rat)
     then Some (py_round 2 (of_int (Volume (last (hist_30d md_active))) /
            (of_int (sum_list (map Volume (drop (length (hist_30d md_active) - 20) (hist_30d md_active)))) / 20)))
     else Some 0) = Some (273 / 100)"
    by code_simp
  show ?thesis
    using volume_ratio_computed [OF ok] by (simp only: ok v simp_thms)
qed

text \<open>Twenty days without volume: the denominator is 0 and \<^verbatim>\<open>volume_ratio\<close> is 0, not
  missing.\<close>

theorem volume_ratio_zero_not_missing:
  "20 \<le> length (hist_30d md_zero_volume) \<and>
   sum_list (map Volume (hist_30d md_zero_volume)) = 0 \<and>
   volume_ratio (get_all_screening_metrics (Inr md_zero_volume)) = Some 0"
  by code_simp

text \<open>
  Claim C7, as the code has it. When the collection of a ticker raises no exception and the
  30-day history has at least 21 rows, each of \<^verbatim>\<open>change_1d\<close>, \<^verbatim>\<open>change_5d\<close> and
  \<^verbatim>\<open>change_20d\<close> is the percentage change of the latest close against the close 1, 5 and 20
  rows earlier, rounded to two decimals, or 0 when that earlier close is not positive; with
  fewer than 21 rows all three are missing.
\<close>

theorem price_changes_computed:
  assumes "get_all_screening_metrics_try md = Inr r"
  shows "(21 \<le> length (hist_30d md) \<longrightarrow>
            change_1d (get_all_screening_metrics (Inr md)) =
              pct_change (Close (last (hist_30d md))) (Close (hist_30d md ! (length (hist_30d md) - 2))) \<and>
            change_5d (get_all_screening_metrics (Inr md)) =
              pct_change (Close (last (hist_30d md))) (Close (hist_30d md ! (length (hist_30d md) - 6))) \<and>
            change_20d (get_all_screening_metrics (Inr md)) =
              pct_change (Close (last (hist_30d md))) (Close (hist_30d md ! (length (hist_30d md) - 21))))
       \<and> (length (hist_30d md) < 21 \<longrightarrow>
            change_1d (get_all_screening_metrics (Inr md)) = None \<and>
            change_5d (get_all_screening_metrics (Inr md)) = None \<and>
            change_20d (get_all_screening_metrics (Inr md)) = None)
       \<and> (\<forall>c p. 0 < p \<longrightarrow> pct_change (Some c) (Some p) = Some (py_round 2 ((c - p) / p * 100)))
       \<and> (\<forall>cur p. \<not> 0 < p \<longrightarrow> pct_change cur (Some p) = Some 0)"
proof -
  have r: "get_all_screening_metrics (Inr md) = r"
    using assms by (rule get_all_screening_metrics_ok)
  have "(change_1d r, change_5d r, change_20d r) = price_block (hist_30d md)"
    using assms by (rule try_changes)
  then show ?thesis
    unfolding r
    by (auto simp: price_block_def Let_def last_conv_nth pct_change_cases split: if_splits)
qed

theorem price_changes_computed_witness:
  "get_all_screening_metrics_try md_active = Inr (get_all_screening_metrics (Inr md_active)) \<and>
   21 \<le> length (hist_30d md_active) \<and>
   change_1d (get_all_screening_metrics (Inr md_active)) = Some 10 \<and>
   get_all_screening_metrics_try md_five_days = Inr (get_all_screening_metrics (Inr md_five_days)) \<and>
   length (hist_30d md_five_days) < 21 \<and>
   change_20d (get_all_screening_metrics (Inr md_five_days)) = None \<and>
   pct_change (Some 11) (Some 10) = Some (py_round 2 ((11 - 10) / 10 * 100)) \<and>
   pct_change (Some 11) (Some 0) = Some 0"
proof -
  have ok: "get_all_screening_metrics_try md_active
      = Inr (get_all_screening_metrics (Inr md_active))"
    by code_simp
  have ok5: "get_all_screening_metrics_try md_five_days
      = Inr (get_all_screening_metrics (Inr md_five_days))"
    by code_simp
  have len: "21 \<le> length (hist_30d md_active)" "length (hist_30d md_five_days) < 21"
    by code_simp+
  have v: "pct_change (Close (last (hist_30d md_active)))
      (Close (hist_30d md_active ! (length (hist_30d md_active) - 2))) = Some 10"
    by code_simp
  show ?thesis
    using price_changes_computed [OF ok] price_changes_computed [OF ok5] len v
    by (simp add: ok [symmetric] ok5 [symmetric])
qed

text \<open>Five days of history are enough for a one-day change, yet all three changes are
  missing, not zero.\<close>

theorem change_1d_missing_not_zero:
  "2 \<le> length (hist_30d md_five_days) \<and>
   change_1d (get_all_screening_metrics (Inr md_five_days)) = None \<and>
   change_5d (get_all_screening_metrics (Inr md_five_days)) = None \<and>
   change_20d (get_all_screening_metrics (Inr md_five_days)) = None"
  by code_simp

section \<open>Claims about the Universe Builder\<close>

text \<open>
  Claim C9, as the code has it. When the listing cannot be parsed (whatever the exception),
  \<^verbatim>\<open>get_sp500_tickers\<close> returns the empty list, and \<^verbatim>\<open>create_dataframe_with_tickers\<close>
  returns without creating the data directory or writing the universe file. The pipeline
  does not stop there: \<^verbatim>\<open>main\<close> runs the three later stages on the files it finds.
\<close>

theorem listing_failure_handled:
  assumes "get_sp500_tickers_try (sp500_listing env) = Inl e"
  shows "get_sp500_tickers (sp500_listing env) = [] \<and>
         create_dataframe_with_tickers test_mode test_count (sp500_listing env) fs = Inr fs \<and>
         main test_mode test_count env fs =
           bind_exn (filter_by_net_income (financials_of env) fs) (\<lambda>fs2.
           bind_exn (add_all_screening_metrics (market_of env) fs2) (\<lambda>fs3.
             calculate_screening_scores SCREENING_WEIGHTS (spy_return env) fs3))"
  using assms
  by (simp add: get_sp500_tickers_def create_dataframe_with_tickers_def main_def bind_exn_def)

theorem listing_failure_handled_witness:
  "get_sp500_tickers_try (sp500_listing env_listing_broken) = Inl ValueError \<and>
   get_sp500_tickers (sp500_listing env_listing_broken) = [] \<and>
   create_dataframe_with_tickers False 10 (sp500_listing env_listing_broken) fs_earlier_run
     = Inr fs_earlier_run"
  using listing_failure_handled [of env_listing_broken ValueError False 10 fs_earlier_run]
  by (simp add: env_listing_broken_def listing_without_symbol_def get_sp500_tickers_try_def)

text \<open>The listing has no symbol column while the universe file of an earlier run exists:
  the later stages run and screen the ticker of that file.\<close>

theorem pipeline_continues_after_listing_failure:
  "get_sp500_tickers (sp500_listing env_listing_broken) = [] \<and>
   \<not> isl (main False 10 env_listing_broken fs_earlier_run) \<and>
   f01_tickers (projr (main False 10 env_listing_broken fs_earlier_run)) = Some [''AAA''] \<and>
   f02_filtered (projr (main False 10 env_listing_broken fs_earlier_run)) = Some [''AAA''] \<and>
   f03_raw (projr (main False 10 env_listing_broken fs_earlier_run)) = Some [missing_row ''AAA''] \<and>
   map Composite_Score (the (f04_results (projr (main False 10 env_listing_broken fs_earlier_run))))
     = [Some 100]"
  by (simp add: main_def bind_exn_def env_listing_broken_def listing_without_symbol_def
      get_sp500_tickers_def get_sp500_tickers_try_def create_dataframe_with_tickers_def
      fs_earlier_run_def filter_by_net_income_def to_csv_def net_income_check_def fin_rising_def
      fgt_def fle_def add_all_screening_metrics_def get_all_screening_metrics_def all_nan_def
      metric_row_of_def missing_row_def calculate_screening_scores_def scored_table_def
      sort_values_descending_def screening_scores_def Volume_Score_col_def
      Price_Change_Score_col_def price_composite_def Relative_Strength_Score_col_def
      relative_strength_def Historical_Vol_Score_col_def options_composite_def
      squeeze_composite_def Composite_Score_col_def Rank_col_def rank_descending_def
      normalize_score_def rank_pct_def s_scale_def s_add_def s_sub_scalar_def fillna_def
      present_def average_rank_def fmul_def fadd_def fsub_def SCREENING_WEIGHTS_def)


end
